theory Spec2Isabelle
  imports Main
begin

section \<open>Strings\<close>

text \<open>
  A JavaScript string is modelled as a \<^typ>\<open>string\<close> whose characters are the code
  units below 256 (Latin-1), one \<^typ>\<open>char\<close> per code unit, so that \<open>length\<close> is the
  source's \<^verbatim>\<open>.length\<close>.
\<close>

definition is_space :: "char \<Rightarrow> bool" where
  \<comment> \<open>the regular-expression class \<^verbatim>\<open>\s\<close> and the characters \<^verbatim>\<open>trim()\<close> removes, below 256\<close>
  "is_space c = (of_char c \<in> {9, 10, 11, 12, 13, 32, 160 :: nat})"

definition lower_char :: "char \<Rightarrow> char" where
  "lower_char c =
     (let n = of_char c :: nat
      in if (65 \<le> n \<and> n \<le> 90) \<or> (192 \<le> n \<and> n \<le> 222 \<and> n \<noteq> 215)
         then char_of (n + 32) else c)"

definition toLowerCase :: "string \<Rightarrow> string" where
  "toLowerCase s = map lower_char s"

definition trim :: "string \<Rightarrow> string" where
  "trim s = rev (dropWhile is_space (rev (dropWhile is_space s)))"

definition not_space_at :: "char \<Rightarrow> bool" where
  \<comment> \<open>the class \<^verbatim>\<open>[^\s@]\<close>\<close>
  "not_space_at c = (c \<noteq> CHR ''@'' \<and> \<not> is_space c)"

definition emailRegex_test :: "string \<Rightarrow> bool" where
  \<comment> \<open>\<^verbatim>\<open>/^[^\s@]+@[^\s@]+\.[^\s@]+$/.test(s)\<close>: the class excludes \<^verbatim>\<open>@\<close>, so the
      \<^verbatim>\<open>@\<close> of a match is the first one of \<open>s\<close>; what follows it splits at some dot
      that is neither its first nor its last character.\<close>
  "emailRegex_test s =
     (let a = takeWhile (\<lambda>c. c \<noteq> CHR ''@'') s;
          r = drop (length a + 1) s
      in a \<noteq> [] \<and> length a < length s \<and> list_all not_space_at a \<and> list_all not_space_at r
         \<and> CHR ''.'' \<in> set (butlast (tl r)))"

definition digit_char :: "nat \<Rightarrow> char" where
  "digit_char d = char_of (48 + d)"

function show_nat :: "nat \<Rightarrow> string" where
  \<comment> \<open>the decimal numeral a template literal prints for a non-negative integer\<close>
  "show_nat n = (if n < 10 then [digit_char n] else show_nat (n div 10) @ [digit_char (n mod 10)])"
  by pat_completeness auto
termination
  by (relation "measure (\<lambda>n. n)") auto

declare show_nat.simps [simp del]

definition single :: "'a list \<Rightarrow> 'a option" where
  \<comment> \<open>the query modifier \<^verbatim>\<open>.single()\<close>: the row when exactly one row matches, an error
      (no data) otherwise\<close>
  "single rows = (case rows of [r] \<Rightarrow> Some r | _ \<Rightarrow> None)"

definition truthy :: "string option \<Rightarrow> bool" where
  \<comment> \<open>JavaScript truthiness of a value that is a string, \<^verbatim>\<open>undefined\<close> or \<^verbatim>\<open>null\<close>\<close>
  "truthy v = (case v of None \<Rightarrow> False | Some s \<Rightarrow> s \<noteq> [])"

section \<open>Data model (src/types/database.ts)\<close>

datatype UserRole = teacher | parent | admin
datatype SubscriptionTier = free | basic | premium
datatype SubscriptionStatus = active | inactive | suspended

text \<open>
  Columns that the database fills by default and that the modelled code neither reads
  nor writes (\<^verbatim>\<open>logo_url\<close>, \<^verbatim>\<open>theme_colors\<close>, \<^verbatim>\<open>settings\<close>, the timestamps of schools and
  terms, the id of a term) are left out of the rows.
\<close>

record School =
  s_id :: string
  s_name :: string
  s_address :: "string option"
  s_phone :: "string option"
  s_email :: "string option"
  s_subscription_tier :: SubscriptionTier
  s_subscription_status :: SubscriptionStatus
  s_max_students :: "nat option"
  s_max_teachers :: "nat option"

record Profile =
  p_id :: string
  p_tenant_id :: string
  p_email :: string
  p_role :: UserRole
  p_first_name :: "string option"
  p_last_name :: "string option"
  p_phone :: "string option"
  p_avatar_url :: "string option"
  p_is_active :: bool
  p_last_login :: "string option"
  p_created_at :: string
  p_updated_at :: "string option"

record AcademicTerm =
  t_tenant_id :: string
  t_name :: string
  t_start_date :: string
  t_end_date :: string
  t_is_current :: bool
  t_academic_year :: string

text \<open>An identity of the auth provider, with the claims kept in its \<^verbatim>\<open>user_metadata\<close>.\<close>

record AuthUser =
  au_id :: string
  au_email :: string
  au_password :: string
  au_tenant_id :: "string option"
  au_role :: "UserRole option"
  au_first_name :: "string option"
  au_last_name :: "string option"
  au_email_confirm :: bool

text \<open>\<^verbatim>\<open>Partial<Profile>\<close>: every key may be absent.\<close>

record ProfilePartial =
  u_id :: "string option"
  u_tenant_id :: "string option"
  u_email :: "string option"
  u_role :: "UserRole option"
  u_first_name :: "string option"
  u_last_name :: "string option"
  u_phone :: "string option"
  u_avatar_url :: "string option"
  u_is_active :: "bool option"
  u_last_login :: "string option"
  u_created_at :: "string option"
  u_updated_at :: "string option"

record Teacher =
  te_tenant_id :: string
  te_profile_id :: string

datatype RelationshipType = mother | father | guardian | sibling | other

record Parent =
  pa_tenant_id :: string
  pa_profile_id :: string
  pa_relationship_type :: RelationshipType
  pa_emergency_contact :: bool
  pa_can_pickup :: bool

section \<open>The backend\<close>

text \<open>
  The backend is the relational store and the identity provider. Every request that
  changes it is recorded in \<open>requests\<close> when it is sent, whether it then takes effect or
  not.
\<close>

datatype request =
    InsertSchool School
  | DeleteSchool string
  | CreateUser AuthUser
  | DeleteUser string
  | InsertProfile Profile
  | InsertTerm AcademicTerm
  | UpdateProfiles ProfilePartial string string
  | UpdateUser string string UserRole
  | InsertTeacher Teacher
  | InsertParent Parent
  | AuthSignOut

record backend =
  schools :: "School list"
  auth_users :: "AuthUser list"
  profiles :: "Profile list"
  academic_terms :: "AcademicTerm list"
  teachers :: "Teacher list"
  parents :: "Parent list"
  requests :: "request list"

text \<open>
  A call of the Supabase client resolves to a pair \<^verbatim>\<open>{ data, error }\<close>, which is how the
  source reads every call: either the call takes effect and there is no error, or it
  has no effect and \<open>error\<close> is set. Which calls fail is a parameter, one answer for each
  place of the source that awaits the backend.
\<close>

definition send :: "bool \<Rightarrow> request \<Rightarrow> (backend \<Rightarrow> backend) \<Rightarrow> backend \<Rightarrow> backend" where
  "send failing rq effect b =
     (let b1 = b\<lparr>requests := requests b @ [rq]\<rparr> in if failing then b1 else effect b1)"

definition delete_school :: "string \<Rightarrow> backend \<Rightarrow> backend" where
  \<comment> \<open>\<^verbatim>\<open>from('schools').delete().eq('id', tid)\<close>\<close>
  "delete_school tid b = b\<lparr>schools := filter (\<lambda>s. s_id s \<noteq> tid) (schools b)\<rparr>"

definition delete_user :: "string \<Rightarrow> backend \<Rightarrow> backend" where
  \<comment> \<open>\<^verbatim>\<open>auth.admin.deleteUser(uid)\<close>\<close>
  "delete_user uid b = b\<lparr>auth_users := filter (\<lambda>u. au_id u \<noteq> uid) (auth_users b)\<rparr>"

section \<open>Tenant provisioning (src/supabase/functions/create-tenant/index.ts)\<close>

record CreateTenantRequest =
  email :: "string option"
  password :: "string option"
  schoolName :: "string option"
  schoolAddress :: "string option"
  schoolPhone :: "string option"
  schoolEmail :: "string option"
  adminFirstName :: "string option"
  adminLastName :: "string option"
  subscriptionTier :: "SubscriptionTier option"

text \<open>The HTTP status and the JSON body \<^verbatim>\<open>CreateTenantResponse\<close>.\<close>

record Response =
  status :: nat
  success :: bool
  r_tenantId :: "string option"
  r_userId :: "string option"
  error :: "string option"

definition failure :: "nat \<Rightarrow> string \<Rightarrow> Response" where
  "failure code msg =
     \<lparr>status = code, success = False, r_tenantId = None, r_userId = None, error = Some msg\<rparr>"

text \<open>The places of the handler that await the backend, in the order of the source.\<close>

datatype site =
    ListUsers | FindSchool
  | Step1_InsertSchool
  | Step2_CreateUser | Step2_DeleteSchool
  | Step3_InsertProfile | Step3_DeleteUser | Step3_DeleteSchool
  | Step4_InsertTerm
  | Catch_DeleteUser | Catch_DeleteSchool

text \<open>
  What the handler takes from outside: which calls fail, the ids the database and the
  identity provider give to the new rows, the timestamp default of a new profile row,
  the year of the wall clock, the database's \<^verbatim>\<open>ILIKE\<close> (pattern first), and the answer of
  the identity provider to \<^verbatim>\<open>auth.admin.listUsers()\<close> as a function of the identities it
  holds. The source calls the listing with no page argument, so the answer is the first
  page of the provider only; how long a page is, and in which order the identities are
  listed, is the provider's and not code of the repository.
\<close>

record env =
  fails :: "site \<Rightarrow> bool"
  new_school_id :: string
  new_user_id :: string
  db_now :: string
  currentYear :: nat
  ilike :: "string \<Rightarrow> string \<Rightarrow> bool"
  listUsers :: "AuthUser list \<Rightarrow> AuthUser list"

definition emailExists :: "env \<Rightarrow> string \<Rightarrow> backend \<Rightarrow> bool" where
  \<comment> \<open>lines 103-104; the users compared are those of the one page the listing
      answers, and none when the listing fails\<close>
  "emailExists e em b =
     (\<not> fails e ListUsers
      \<and> list_ex (\<lambda>u. au_email u = toLowerCase em) (listUsers e (auth_users b)))"

definition existingSchool :: "env \<Rightarrow> string \<Rightarrow> backend \<Rightarrow> School option" where
  \<comment> \<open>lines 120-124\<close>
  "existingSchool e sn b =
     (if fails e FindSchool then None
      else single (filter (\<lambda>s. ilike e (trim sn) (s_name s)) (schools b)))"

definition school_row :: "env \<Rightarrow> string \<Rightarrow> CreateTenantRequest \<Rightarrow> School" where
  \<comment> \<open>lines 147-156\<close>
  "school_row e sn rq =
     \<lparr>s_id = new_school_id e,
      s_name = trim sn,
      s_address = map_option trim (schoolAddress rq),
      s_phone = map_option trim (schoolPhone rq),
      s_email = map_option (\<lambda>x. trim (toLowerCase x)) (schoolEmail rq),
      s_subscription_tier = (case subscriptionTier rq of None \<Rightarrow> free | Some t \<Rightarrow> t),
      s_subscription_status = active,
      s_max_students = Some 500,
      s_max_teachers = Some 50\<rparr>"

definition admin_user :: "env \<Rightarrow> string \<Rightarrow> string \<Rightarrow> string \<Rightarrow> CreateTenantRequest \<Rightarrow> AuthUser" where
  \<comment> \<open>lines 168-178\<close>
  "admin_user e em pw tid rq =
     \<lparr>au_id = new_user_id e,
      au_email = toLowerCase em,
      au_password = pw,
      au_tenant_id = Some tid,
      au_role = Some admin,
      au_first_name = map_option trim (adminFirstName rq),
      au_last_name = map_option trim (adminLastName rq),
      au_email_confirm = True\<rparr>"

definition admin_profile :: "env \<Rightarrow> string \<Rightarrow> string \<Rightarrow> string \<Rightarrow> CreateTenantRequest \<Rightarrow> Profile" where
  \<comment> \<open>lines 192-200\<close>
  "admin_profile e em uid tid rq =
     \<lparr>p_id = uid,
      p_tenant_id = tid,
      p_email = toLowerCase em,
      p_role = admin,
      p_first_name = map_option trim (adminFirstName rq),
      p_last_name = map_option trim (adminLastName rq),
      p_phone = None,
      p_avatar_url = None,
      p_is_active = True,
      p_last_login = None,
      p_created_at = db_now e,
      p_updated_at = None\<rparr>"

definition default_term :: "nat \<Rightarrow> string \<Rightarrow> AcademicTerm" where
  \<comment> \<open>lines 211-223\<close>
  "default_term y tid =
     \<lparr>t_tenant_id = tid,
      t_name = ''Fall '' @ show_nat y,
      t_start_date = show_nat y @ ''-09-01'',
      t_end_date = show_nat (y + 1) @ ''-06-30'',
      t_is_current = True,
      t_academic_year = show_nat y @ ''-'' @ show_nat (y + 1)\<rparr>"

text \<open>
  The inner \<^verbatim>\<open>try\<close> block (lines 143-243) either returns the success response or throws
  an \<^verbatim>\<open>Error\<close>; the \<^verbatim>\<open>catch\<close> block then reads the variables \<^verbatim>\<open>tenantId\<close> and \<^verbatim>\<open>userId\<close>
  as they are at the throw.
\<close>

datatype attempt =
    Returned Response
  | Thrown string "string option" "string option"

definition step4 :: "env \<Rightarrow> string \<Rightarrow> string \<Rightarrow> backend \<Rightarrow> attempt \<times> backend" where
  "step4 e tid uid b =
     (let term = default_term (currentYear e) tid;
          b4 = send (fails e Step4_InsertTerm) (InsertTerm term)
                 (\<lambda>x. x\<lparr>academic_terms := academic_terms x @ [term]\<rparr>) b
      in (Returned \<lparr>status = 201, success = True, r_tenantId = Some tid, r_userId = Some uid,
                     error = None\<rparr>, b4))"

definition step3 :: "env \<Rightarrow> string \<Rightarrow> string \<Rightarrow> string \<Rightarrow> CreateTenantRequest \<Rightarrow> backend
    \<Rightarrow> attempt \<times> backend" where
  "step3 e em tid uid rq b =
     (let row = admin_profile e em uid tid rq;
          b3 = send (fails e Step3_InsertProfile) (InsertProfile row)
                 (\<lambda>x. x\<lparr>profiles := profiles x @ [row]\<rparr>) b
      in if fails e Step3_InsertProfile
         then let c1 = send (fails e Step3_DeleteUser) (DeleteUser uid) (delete_user uid) b3;
                  c2 = send (fails e Step3_DeleteSchool) (DeleteSchool tid) (delete_school tid) c1
              in (Thrown ''Failed to create admin profile'' (Some tid) (Some uid), c2)
         else step4 e tid uid b3)"

definition step2 :: "env \<Rightarrow> string \<Rightarrow> string \<Rightarrow> string \<Rightarrow> CreateTenantRequest \<Rightarrow> backend
    \<Rightarrow> attempt \<times> backend" where
  "step2 e em pw tid rq b =
     (let u = admin_user e em pw tid rq;
          b2 = send (fails e Step2_CreateUser) (CreateUser u)
                 (\<lambda>x. x\<lparr>auth_users := auth_users x @ [u]\<rparr>) b
      in if fails e Step2_CreateUser
         then let c = send (fails e Step2_DeleteSchool) (DeleteSchool tid) (delete_school tid) b2
              in (Thrown ''Failed to create admin user'' (Some tid) None, c)
         else step3 e em tid (au_id u) rq b2)"

definition step1 :: "env \<Rightarrow> string \<Rightarrow> string \<Rightarrow> string \<Rightarrow> CreateTenantRequest \<Rightarrow> backend
    \<Rightarrow> attempt \<times> backend" where
  "step1 e em pw sn rq b =
     (let row = school_row e sn rq;
          b1 = send (fails e Step1_InsertSchool) (InsertSchool row)
                 (\<lambda>x. x\<lparr>schools := schools x @ [row]\<rparr>) b
      in if fails e Step1_InsertSchool
         then (Thrown ''Failed to create school'' None None, b1)
         else step2 e em pw (s_id row) rq b1)"

definition cleanup :: "env \<Rightarrow> string option \<Rightarrow> string option \<Rightarrow> backend \<Rightarrow> backend" where
  \<comment> \<open>the \<^verbatim>\<open>catch\<close> block, lines 245-263\<close>
  "cleanup e tid uid b =
     (let c1 = (case uid of
                  Some u \<Rightarrow> if u \<noteq> [] then send (fails e Catch_DeleteUser) (DeleteUser u) (delete_user u) b
                            else b
                | None \<Rightarrow> b)
      in (case tid of
            Some t \<Rightarrow> if t \<noteq> [] then send (fails e Catch_DeleteSchool) (DeleteSchool t) (delete_school t) c1
                      else c1
          | None \<Rightarrow> c1))"

definition provision :: "env \<Rightarrow> string \<Rightarrow> string \<Rightarrow> string \<Rightarrow> CreateTenantRequest \<Rightarrow> backend
    \<Rightarrow> Response \<times> backend" where
  \<comment> \<open>lines 139-281: the steps, the \<^verbatim>\<open>catch\<close> block that rethrows, and the outer \<^verbatim>\<open>catch\<close>
      that answers 500 with the message of the error\<close>
  "provision e em pw sn rq b =
     (case step1 e em pw sn rq b of
        (Returned r, b') \<Rightarrow> (r, b')
      | (Thrown msg tid uid, b') \<Rightarrow> (failure 500 msg, cleanup e tid uid b'))"

definition create_tenant :: "env \<Rightarrow> CreateTenantRequest \<Rightarrow> backend \<Rightarrow> Response \<times> backend" where
  \<comment> \<open>the handler from the parsed request body on, lines 59-281\<close>
  "create_tenant e rq b =
     (case (email rq, password rq, schoolName rq) of
        (Some em, Some pw, Some sn) \<Rightarrow>
          if em = [] \<or> pw = [] \<or> sn = []
          then (failure 400 ''Email, password, and school name are required'', b)
          else if \<not> emailRegex_test em
          then (failure 400 ''Invalid email format'', b)
          else if length pw < 8
          then (failure 400 ''Password must be at least 8 characters long'', b)
          else if emailExists e em b
          then (failure 409 ''Email address is already registered'', b)
          else if existingSchool e sn b \<noteq> None
          then (failure 409 ''A school with this name already exists'', b)
          else provision e em pw sn rq b
      | _ \<Rightarrow> (failure 400 ''Email, password, and school name are required'', b))"

text \<open>The first three checks of the handler, as predicates on the request.\<close>

definition precondition_1 :: "CreateTenantRequest \<Rightarrow> bool" where
  "precondition_1 rq = (truthy (email rq) \<and> truthy (password rq) \<and> truthy (schoolName rq))"

definition precondition_2 :: "CreateTenantRequest \<Rightarrow> bool" where
  "precondition_2 rq = (case email rq of Some em \<Rightarrow> emailRegex_test em | None \<Rightarrow> False)"

definition precondition_3 :: "CreateTenantRequest \<Rightarrow> bool" where
  "precondition_3 rq = (case password rq of Some pw \<Rightarrow> 8 \<le> length pw | None \<Rightarrow> False)"

section \<open>Session and tenant binding (the \<^verbatim>\<open>AuthProvider\<close> of src/scripts/setup-database.ts)\<close>

text \<open>What the provider reads of a \<^verbatim>\<open>Session\<close>: the id of its user and the claims in the
  user's \<^verbatim>\<open>user_metadata\<close>.\<close>

record Session =
  ss_user_id :: string
  ss_tenant_id :: "string option"
  ss_role :: "UserRole option"

text \<open>
  The state hooks of the provider. One call of an operation is one transition: the
  state is read when the call starts and the setters it runs take effect together.
\<close>

record AuthState =
  initialized :: bool
  session :: "Session option"
  user :: "Profile option"
  school :: "School option"
  role :: "UserRole option"
  tenantId :: "string option"
  isLoading :: bool

definition initial_state :: AuthState where
  \<comment> \<open>the initial values of the \<^verbatim>\<open>useState\<close> hooks, lines 184-190\<close>
  "initial_state =
     \<lparr>initialized = False, session = None, user = None, school = None, role = None,
      tenantId = None, isLoading = True\<rparr>"

text \<open>The result \<^verbatim>\<open>{ success, error?, userId? }\<close> of an operation.\<close>

record AuthResult =
  a_success :: bool
  a_error :: "string option"
  a_userId :: "string option"

definition succeeded :: AuthResult where
  "succeeded = \<lparr>a_success = True, a_error = None, a_userId = None\<rparr>"

definition failed :: "string \<Rightarrow> AuthResult" where
  "failed msg = \<lparr>a_success = False, a_error = Some msg, a_userId = None\<rparr>"

datatype client_site =
    FetchProfile | FetchSchool | UpdateLastLogin
  | SignUp_InsertSchool | SignUp_InsertProfile | SignUp_InsertTeacher | SignUp_InsertParent
  | SignOut_Call
  | UpdateProfile_Call
  | SwitchTenant_Verify | SwitchTenant_UpdateUser
  | Handler_SignOut

text \<open>
  What the provider takes from outside: which calls fail and the message of their
  error, the clock, the id the database gives a new school, the timestamp default of a
  new profile row, the persisted session, and the answers of the identity provider to
  \<^verbatim>\<open>signUp\<close> (the new user, if any, and the session, if any) and to \<^verbatim>\<open>signInWithPassword\<close>
  (the session and the id of the user, if any); \<open>Inl\<close> is an error with its message.
\<close>

record client_env =
  c_fails :: "client_site \<Rightarrow> bool"
  c_message :: "client_site \<Rightarrow> string"
  c_now :: string
  c_new_school_id :: string
  c_db_now :: string
  getSession :: "Session option"
  auth_signUp :: "string \<Rightarrow> string \<Rightarrow> string + (string option \<times> Session option)"
  signInWithPassword :: "string \<Rightarrow> string \<Rightarrow> string + (Session option \<times> string option)"

definition no_updates :: ProfilePartial where
  "no_updates =
     \<lparr>u_id = None, u_tenant_id = None, u_email = None, u_role = None, u_first_name = None,
      u_last_name = None, u_phone = None, u_avatar_url = None, u_is_active = None,
      u_last_login = None, u_created_at = None, u_updated_at = None\<rparr>"

definition set_col :: "'a option \<Rightarrow> 'a \<Rightarrow> 'a" where
  "set_col v old = (case v of None \<Rightarrow> old | Some x \<Rightarrow> x)"

definition set_opt_col :: "'a option \<Rightarrow> 'a option \<Rightarrow> 'a option" where
  "set_opt_col v old = (case v of None \<Rightarrow> old | Some x \<Rightarrow> Some x)"

definition apply_updates :: "ProfilePartial \<Rightarrow> Profile \<Rightarrow> Profile" where
  \<comment> \<open>what an \<^verbatim>\<open>UPDATE\<close> with this payload does to one row: every key that is present
      is assigned\<close>
  "apply_updates upd p =
     \<lparr>p_id = set_col (u_id upd) (p_id p),
      p_tenant_id = set_col (u_tenant_id upd) (p_tenant_id p),
      p_email = set_col (u_email upd) (p_email p),
      p_role = set_col (u_role upd) (p_role p),
      p_first_name = set_opt_col (u_first_name upd) (p_first_name p),
      p_last_name = set_opt_col (u_last_name upd) (p_last_name p),
      p_phone = set_opt_col (u_phone upd) (p_phone p),
      p_avatar_url = set_opt_col (u_avatar_url upd) (p_avatar_url p),
      p_is_active = set_col (u_is_active upd) (p_is_active p),
      p_last_login = set_opt_col (u_last_login upd) (p_last_login p),
      p_created_at = set_col (u_created_at upd) (p_created_at p),
      p_updated_at = set_opt_col (u_updated_at upd) (p_updated_at p)\<rparr>"

definition update_row :: "ProfilePartial \<Rightarrow> string \<Rightarrow> string \<Rightarrow> Profile \<Rightarrow> Profile" where
  \<comment> \<open>the update reaches the rows that pass both equality filters\<close>
  "update_row upd pid tid p =
     (if p_id p = pid \<and> p_tenant_id p = tid then apply_updates upd p else p)"

definition update_profiles :: "ProfilePartial \<Rightarrow> string \<Rightarrow> string \<Rightarrow> backend \<Rightarrow> backend" where
  \<comment> \<open>\<^verbatim>\<open>from('profiles').update(upd).eq('id', pid).eq('tenant_id', tid)\<close>\<close>
  "update_profiles upd pid tid b = b\<lparr>profiles := map (update_row upd pid tid) (profiles b)\<rparr>"

definition update_user :: "string \<Rightarrow> string \<Rightarrow> UserRole \<Rightarrow> backend \<Rightarrow> backend" where
  \<comment> \<open>\<^verbatim>\<open>auth.updateUser({ data: { tenant_id, role } })\<close> for the user of the session\<close>
  "update_user uid tid r b =
     b\<lparr>auth_users :=
         map (\<lambda>u. if au_id u = uid then u\<lparr>au_tenant_id := Some tid, au_role := Some r\<rparr> else u)
           (auth_users b)\<rparr>"

definition profileData_query :: "client_env \<Rightarrow> string \<Rightarrow> backend \<Rightarrow> Profile option" where
  \<comment> \<open>lines 198-213\<close>
  "profileData_query e userId b =
     (if c_fails e FetchProfile then None
      else single (filter (\<lambda>p. p_id p = userId \<and> p_is_active p) (profiles b)))"

definition schoolData_query :: "client_env \<Rightarrow> string \<Rightarrow> backend \<Rightarrow> School option" where
  \<comment> \<open>lines 216-231\<close>
  "schoolData_query e tid b =
     (if c_fails e FetchSchool then None
      else single (filter (\<lambda>s. s_id s = tid \<and> s_subscription_status s = active) (schools b)))"

definition fetchUserData :: "client_env \<Rightarrow> string \<Rightarrow> AuthState \<Rightarrow> backend
    \<Rightarrow> bool \<times> AuthState \<times> backend" where
  \<comment> \<open>lines 193-253; the \<^verbatim>\<open>finally\<close> block ends the loading on every path\<close>
  "fetchUserData e userId st b =
     (case profileData_query e userId b of
        None \<Rightarrow> (False, st\<lparr>isLoading := False\<rparr>, b)
      | Some profileData \<Rightarrow>
          (case schoolData_query e (p_tenant_id profileData) b of
             None \<Rightarrow> (False, st\<lparr>isLoading := False\<rparr>, b)
           | Some schoolData \<Rightarrow>
               (let st1 = st\<lparr>user := Some profileData, school := Some schoolData,
                              role := Some (p_role profileData),
                              tenantId := Some (p_tenant_id profileData)\<rparr>;
                    upd = no_updates\<lparr>u_last_login := Some (c_now e)\<rparr>;
                    b1 = send (c_fails e UpdateLastLogin)
                           (UpdateProfiles upd userId (p_tenant_id profileData))
                           (update_profiles upd userId (p_tenant_id profileData)) b
                in (True, st1\<lparr>isLoading := False\<rparr>, b1))))"

definition refreshUserData :: "client_env \<Rightarrow> AuthState \<Rightarrow> backend \<Rightarrow> AuthState \<times> backend" where
  \<comment> \<open>lines 255-259\<close>
  "refreshUserData e st b =
     (case session st of
        Some s \<Rightarrow> if ss_user_id s \<noteq> [] then snd (fetchUserData e (ss_user_id s) st b) else (st, b)
      | None \<Rightarrow> (st, b))"

definition signIn :: "client_env \<Rightarrow> string \<Rightarrow> string \<Rightarrow> AuthState \<Rightarrow> backend
    \<Rightarrow> AuthResult \<times> AuthState \<times> backend" where
  \<comment> \<open>lines 388-422\<close>
  "signIn e em pw st b =
     (case signInWithPassword e (toLowerCase em) pw of
        Inl msg \<Rightarrow> (failed msg, st\<lparr>isLoading := False\<rparr>, b)
      | Inr (Some s, Some uid) \<Rightarrow>
          (case fetchUserData e uid (st\<lparr>isLoading := True, session := Some s\<rparr>) b of
             (ok, st', b') \<Rightarrow>
               (if \<not> ok then failed ''Failed to load user data'' else succeeded,
                st'\<lparr>isLoading := False\<rparr>, b'))
      | Inr _ \<Rightarrow> (failed ''No session returned from signin'', st\<lparr>isLoading := False\<rparr>, b))"

definition signOut :: "client_env \<Rightarrow> AuthState \<Rightarrow> backend \<Rightarrow> AuthState \<times> backend" where
  \<comment> \<open>lines 424-444; the function returns nothing\<close>
  "signOut e st b =
     (let b1 = send (c_fails e SignOut_Call) AuthSignOut (\<lambda>x. x) b
      in if c_fails e SignOut_Call then (st, b1)
         else (st\<lparr>session := None, user := None, school := None, role := None,
                  tenantId := None\<rparr>, b1))"

definition allowedUpdates :: "ProfilePartial \<Rightarrow> ProfilePartial" where
  \<comment> \<open>line 453: the rest of the object after \<^verbatim>\<open>id\<close>, \<^verbatim>\<open>tenant_id\<close> and \<^verbatim>\<open>created_at\<close>\<close>
  "allowedUpdates updates = updates\<lparr>u_id := None, u_tenant_id := None, u_created_at := None\<rparr>"

definition updateProfile :: "client_env \<Rightarrow> ProfilePartial \<Rightarrow> AuthState \<Rightarrow> backend
    \<Rightarrow> AuthResult \<times> AuthState \<times> backend" where
  \<comment> \<open>lines 446-474\<close>
  "updateProfile e updates st b =
     (case (user st, tenantId st) of
        (Some u, Some t) \<Rightarrow>
          if t = [] then (failed ''No authenticated user'', st, b)
          else
            (let b1 = send (c_fails e UpdateProfile_Call)
                        (UpdateProfiles (allowedUpdates updates) (p_id u) t)
                        (update_profiles (allowedUpdates updates) (p_id u) t) b
             in if c_fails e UpdateProfile_Call
                then (failed (c_message e UpdateProfile_Call), st, b1)
                else (case refreshUserData e st b1 of (st', b') \<Rightarrow> (succeeded, st', b')))
      | _ \<Rightarrow> (failed ''No authenticated user'', st, b))"

definition switchTenant :: "client_env \<Rightarrow> string \<Rightarrow> AuthState \<Rightarrow> backend
    \<Rightarrow> AuthResult \<times> AuthState \<times> backend" where
  \<comment> \<open>lines 476-518\<close>
  "switchTenant e newTenantId st b =
     (case session st of
        None \<Rightarrow> (failed ''No authenticated user'', st, b)
      | Some s \<Rightarrow>
          (case (if c_fails e SwitchTenant_Verify then None
                 else single (filter (\<lambda>p. p_id p = ss_user_id s \<and> p_tenant_id p = newTenantId)
                                (profiles b))) of
             None \<Rightarrow> (failed ''Access denied to this tenant'', st, b)
           | Some profileData \<Rightarrow>
               (let b1 = send (c_fails e SwitchTenant_UpdateUser)
                           (UpdateUser (ss_user_id s) newTenantId (p_role profileData))
                           (update_user (ss_user_id s) newTenantId (p_role profileData)) b
                in if c_fails e SwitchTenant_UpdateUser
                   then (failed (c_message e SwitchTenant_UpdateUser), st, b1)
                   else (case fetchUserData e (ss_user_id s) st b1 of
                           (ok, st', b') \<Rightarrow>
                             (if \<not> ok then failed ''Failed to load tenant data'' else succeeded,
                              st', b')))))"

definition onAuthStateChange :: "client_env \<Rightarrow> Session option \<Rightarrow> AuthState \<Rightarrow> backend
    \<Rightarrow> AuthState \<times> backend" where
  \<comment> \<open>the handler of lines 534-563\<close>
  "onAuthStateChange e new_session st b =
     (case new_session of
        Some s \<Rightarrow>
          if truthy (ss_tenant_id s)
          then (case fetchUserData e (ss_user_id s) (st\<lparr>session := new_session\<rparr>) b of
                  (ok, st', b') \<Rightarrow>
                    if \<not> ok
                    then (st', send (c_fails e Handler_SignOut) AuthSignOut (\<lambda>x. x) b')
                    else (st', b'))
          else snd (fetchUserData e (ss_user_id s) (st\<lparr>session := new_session\<rparr>) b)
      | None \<Rightarrow>
          (st\<lparr>session := None, user := None, school := None, role := None, tenantId := None,
              isLoading := False\<rparr>, b))"

definition initialize :: "client_env \<Rightarrow> AuthState \<Rightarrow> backend \<Rightarrow> AuthState \<times> backend" where
  \<comment> \<open>the effect of lines 520-568 without the subscription: the persisted session is
      read and, if there is one, bound\<close>
  "initialize e st b =
     (let st1 = st\<lparr>initialized := True, session := getSession e\<rparr>
      in case getSession e of
           Some s \<Rightarrow> snd (fetchUserData e (ss_user_id s) st1 b)
         | None \<Rightarrow> (st1\<lparr>isLoading := False\<rparr>, b))"

text \<open>\<^verbatim>\<open>Partial<School>\<close>, the optional school data of an admin sign-up.\<close>

record SchoolPartial =
  sd_name :: "string option"
  sd_address :: "string option"
  sd_phone :: "string option"
  sd_email :: "string option"
  sd_subscription_tier :: "SubscriptionTier option"
  sd_subscription_status :: "SubscriptionStatus option"
  sd_max_students :: "nat option"
  sd_max_teachers :: "nat option"

definition or_default :: "nat option \<Rightarrow> nat \<Rightarrow> nat" where
  \<comment> \<open>\<^verbatim>\<open>n || d\<close> on an optional number: zero is falsy\<close>
  "or_default n d = (case n of None \<Rightarrow> d | Some k \<Rightarrow> if k = 0 then d else k)"

definition signUp_school :: "client_env \<Rightarrow> string \<Rightarrow> SchoolPartial \<Rightarrow> School" where
  \<comment> \<open>lines 276-285\<close>
  "signUp_school e nm sd =
     \<lparr>s_id = c_new_school_id e,
      s_name = nm,
      s_address = sd_address sd,
      s_phone = sd_phone sd,
      s_email = sd_email sd,
      s_subscription_tier = (case sd_subscription_tier sd of None \<Rightarrow> free | Some t \<Rightarrow> t),
      s_subscription_status = (case sd_subscription_status sd of None \<Rightarrow> active | Some x \<Rightarrow> x),
      s_max_students = Some (or_default (sd_max_students sd) 500),
      s_max_teachers = Some (or_default (sd_max_teachers sd) 50)\<rparr>"

definition signUp_rest :: "client_env \<Rightarrow> string \<Rightarrow> string \<Rightarrow> UserRole \<Rightarrow> string \<Rightarrow> AuthState
    \<Rightarrow> backend \<Rightarrow> AuthResult \<times> AuthState \<times> backend" where
  \<comment> \<open>lines 301-379, once \<^verbatim>\<open>schoolId\<close> is known. The identity provider creates the
      identity with the id it answers.\<close>
  "signUp_rest e em pw r schoolId st b =
     (case auth_signUp e (toLowerCase em) pw of
        Inl msg \<Rightarrow> (failed msg, st, b)
      | Inr (None, _) \<Rightarrow> (failed ''No user returned from signup'', st, b)
      | Inr (Some uid, sess) \<Rightarrow>
          (let u = \<lparr>au_id = uid, au_email = toLowerCase em, au_password = pw,
                    au_tenant_id = Some schoolId, au_role = Some r, au_first_name = None,
                    au_last_name = None, au_email_confirm = False\<rparr>;
               b1 = send False (CreateUser u) (\<lambda>x. x\<lparr>auth_users := auth_users x @ [u]\<rparr>) b;
               row = \<lparr>p_id = uid, p_tenant_id = schoolId, p_email = toLowerCase em, p_role = r,
                      p_first_name = None, p_last_name = None, p_phone = None,
                      p_avatar_url = None, p_is_active = True, p_last_login = None,
                      p_created_at = c_db_now e, p_updated_at = None\<rparr>;
               b2 = send (c_fails e SignUp_InsertProfile) (InsertProfile row)
                      (\<lambda>x. x\<lparr>profiles := profiles x @ [row]\<rparr>) b1
           in if c_fails e SignUp_InsertProfile
              then (failed ''Failed to create user profile'', st, b2)
              else
                (let te = \<lparr>te_tenant_id = schoolId, te_profile_id = uid\<rparr>;
                     pa = \<lparr>pa_tenant_id = schoolId, pa_profile_id = uid,
                           pa_relationship_type = other, pa_emergency_contact = False,
                           pa_can_pickup = False\<rparr>;
                     b3 = (if r = teacher
                           then send (c_fails e SignUp_InsertTeacher) (InsertTeacher te)
                                  (\<lambda>x. x\<lparr>teachers := teachers x @ [te]\<rparr>) b2
                           else if r = parent
                           then send (c_fails e SignUp_InsertParent) (InsertParent pa)
                                  (\<lambda>x. x\<lparr>parents := parents x @ [pa]\<rparr>) b2
                           else b2);
                     ok = \<lparr>a_success = True, a_error = None, a_userId = Some uid\<rparr>
                 in case sess of
                      Some s \<Rightarrow>
                        (case fetchUserData e uid (st\<lparr>session := Some s\<rparr>) b3 of
                           (_, st', b') \<Rightarrow> (ok, st', b'))
                    | None \<Rightarrow> (ok, st, b3))))"

definition signUp :: "client_env \<Rightarrow> string \<Rightarrow> string \<Rightarrow> UserRole \<Rightarrow> SchoolPartial option
    \<Rightarrow> AuthState \<Rightarrow> backend \<Rightarrow> AuthResult \<times> AuthState \<times> backend" where
  \<comment> \<open>lines 261-386. A school row has a name: without one the insert gives no row.\<close>
  "signUp e em pw r schoolData st b =
     (case (case (schoolData, r) of
              (Some sd, admin) \<Rightarrow>
                (case sd_name sd of
                   None \<Rightarrow> (failed ''Failed to create school'', st, b)
                 | Some nm \<Rightarrow>
                     (let row = signUp_school e nm sd;
                          b1 = send (c_fails e SignUp_InsertSchool) (InsertSchool row)
                                 (\<lambda>x. x\<lparr>schools := schools x @ [row]\<rparr>) b
                      in if c_fails e SignUp_InsertSchool
                         then (failed ''Failed to create school'', st, b1)
                         else signUp_rest e em pw r (s_id row) (st\<lparr>isLoading := True\<rparr>) b1))
            | _ \<Rightarrow> signUp_rest e em pw r ''a0eebc99-9c0b-4ef8-bb6d-6bb9bd380a11''
                     (st\<lparr>isLoading := True\<rparr>) b) of
        (res, st', b') \<Rightarrow> (res, st'\<lparr>isLoading := False\<rparr>, b'))"

section \<open>Reachable states of the provider\<close>

text \<open>
  The states the provider can be in: it starts in the initial state, and every
  operation and every event of the identity provider is a transition, against any
  backend and with any answers from outside.
\<close>

inductive reachable :: "AuthState \<Rightarrow> bool" where
  start: "reachable initial_state"
| by_initialize: "reachable st \<Longrightarrow> reachable (fst (initialize e st b))"
| by_signUp: "reachable st \<Longrightarrow> reachable (fst (snd (signUp e em pw r sd st b)))"
| by_signIn: "reachable st \<Longrightarrow> reachable (fst (snd (signIn e em pw st b)))"
| by_signOut: "reachable st \<Longrightarrow> reachable (fst (signOut e st b))"
| by_refreshUserData: "reachable st \<Longrightarrow> reachable (fst (refreshUserData e st b))"
| by_updateProfile: "reachable st \<Longrightarrow> reachable (fst (snd (updateProfile e upd st b)))"
| by_switchTenant: "reachable st \<Longrightarrow> reachable (fst (snd (switchTenant e t st b)))"
| by_onAuthStateChange: "reachable st \<Longrightarrow> reachable (fst (onAuthStateChange e s st b))"

text \<open>The four bound fields are either all cleared, or all set and consistent.\<close>

definition bound_consistent :: "AuthState \<Rightarrow> bool" where
  "bound_consistent st =
     (case user st of
        None \<Rightarrow> school st = None \<and> role st = None \<and> tenantId st = None
      | Some p \<Rightarrow>
          role st = Some (p_role p) \<and> tenantId st = Some (p_tenant_id p) \<and> p_is_active p
          \<and> (case school st of
               None \<Rightarrow> False
             | Some s \<Rightarrow> s_id s = p_tenant_id p \<and> s_subscription_status s = active))"

section \<open>Predicates and examples used by the theorems\<close>

definition preconditions_hold :: "env \<Rightarrow> CreateTenantRequest \<Rightarrow> backend \<Rightarrow> bool" where
  "preconditions_hold e rq b =
     (precondition_1 rq \<and> precondition_2 rq \<and> precondition_3 rq
      \<and> (case email rq of Some em \<Rightarrow> \<not> emailExists e em b | None \<Rightarrow> False)
      \<and> (case schoolName rq of Some sn \<Rightarrow> existingSchool e sn b = None | None \<Rightarrow> False))"

definition compensation_takes_effect :: "env \<Rightarrow> bool" where
  "compensation_takes_effect e =
     (\<not> fails e Step2_DeleteSchool \<and> \<not> fails e Step3_DeleteUser \<and> \<not> fails e Step3_DeleteSchool)"

definition demo_request :: CreateTenantRequest where
  "demo_request =
     \<lparr>email = Some ''Admin@X.edu'', password = Some ''Passw0rd!'', schoolName = Some '' Lincoln '',
      schoolAddress = None, schoolPhone = None, schoolEmail = None,
      adminFirstName = Some ''Ada'', adminLastName = None, subscriptionTier = None\<rparr>"

definition short_request :: CreateTenantRequest where
  "short_request =
     \<lparr>email = Some ''a@school.edu'', password = Some ''short'', schoolName = Some ''X'',
      schoolAddress = None, schoolPhone = None, schoolEmail = None,
      adminFirstName = None, adminLastName = None, subscriptionTier = None\<rparr>"

definition demo_env :: "site list \<Rightarrow> env" where
  "demo_env failing =
     \<lparr>fails = (\<lambda>s. List.member failing s), new_school_id = ''t1'', new_user_id = ''u1'',
      db_now = ''2026-11-02T09:00:00Z'', currentYear = 2026,
      ilike = (\<lambda>p s. toLowerCase p = toLowerCase s),
      listUsers = take 50\<rparr>"

definition empty_backend :: backend where
  "empty_backend =
     \<lparr>schools = [], auth_users = [], profiles = [], academic_terms = [], teachers = [],
      parents = [], requests = []\<rparr>"

text \<open>
  Fifty-one identities, each as a provisioning stores it, and a request for the email
  of the last one. The listing of \<open>demo_env\<close> answers pages of fifty, oldest first.
\<close>

definition numbered_user :: "nat \<Rightarrow> AuthUser" where
  "numbered_user n =
     \<lparr>au_id = ''id-'' @ show_nat n, au_email = ''user'' @ show_nat n @ ''@x.edu'',
      au_password = ''Passw0rd!'', au_tenant_id = Some (''tenant-'' @ show_nat n),
      au_role = Some admin, au_first_name = None, au_last_name = None,
      au_email_confirm = True\<rparr>"

definition crowded_backend :: backend where
  "crowded_backend = empty_backend\<lparr>auth_users := map numbered_user [0..<51]\<rparr>"

definition crowded_request :: CreateTenantRequest where
  "crowded_request = demo_request\<lparr>email := Some ''User50@X.edu''\<rparr>"

definition catch_requests :: "string option \<Rightarrow> string option \<Rightarrow> request list" where
  "catch_requests tid uid =
     (case uid of Some u \<Rightarrow> if u \<noteq> [] then [DeleteUser u] else [] | None \<Rightarrow> [])
     @ (case tid of Some t \<Rightarrow> if t \<noteq> [] then [DeleteSchool t] else [] | None \<Rightarrow> [])"

text \<open>Every identity is stored with its email in lower case.\<close>

definition stored_lower :: "backend \<Rightarrow> bool" where
  "stored_lower b = list_all (\<lambda>u. au_email u = toLowerCase (au_email u)) (auth_users b)"

text \<open>The backend after a first provisioning of \<open>demo_request\<close>, and a user bound to it.\<close>

definition demo_school :: School where
  "demo_school =
     \<lparr>s_id = ''t1'', s_name = ''Lincoln'', s_address = None, s_phone = None, s_email = None,
      s_subscription_tier = free, s_subscription_status = active, s_max_students = Some 500,
      s_max_teachers = Some 50\<rparr>"

definition demo_user :: AuthUser where
  "demo_user =
     \<lparr>au_id = ''u1'', au_email = ''admin@x.edu'', au_password = ''Passw0rd!'',
      au_tenant_id = Some ''t1'', au_role = Some admin, au_first_name = Some ''Ada'',
      au_last_name = None, au_email_confirm = True\<rparr>"

definition demo_profile :: Profile where
  "demo_profile =
     \<lparr>p_id = ''u1'', p_tenant_id = ''t1'', p_email = ''admin@x.edu'', p_role = admin,
      p_first_name = Some ''Ada'', p_last_name = None, p_phone = None, p_avatar_url = None,
      p_is_active = True, p_last_login = None, p_created_at = ''2026-11-02T09:00:00Z'',
      p_updated_at = None\<rparr>"

definition demo_term :: AcademicTerm where
  "demo_term =
     \<lparr>t_tenant_id = ''t1'', t_name = ''Fall 2026'', t_start_date = ''2026-09-01'',
      t_end_date = ''2027-06-30'', t_is_current = True, t_academic_year = ''2026-2027''\<rparr>"

definition demo_backend :: backend where
  "demo_backend =
     \<lparr>schools = [demo_school], auth_users = [demo_user], profiles = [demo_profile],
      academic_terms = [demo_term], teachers = [], parents = [],
      requests = [InsertSchool demo_school, CreateUser demo_user, InsertProfile demo_profile,
                  InsertTerm demo_term]\<rparr>"

definition demo_session :: Session where
  "demo_session = \<lparr>ss_user_id = ''u1'', ss_tenant_id = Some ''t1'', ss_role = Some admin\<rparr>"

definition demo_client :: "client_site list \<Rightarrow> client_env" where
  "demo_client failing =
     \<lparr>c_fails = (\<lambda>s. List.member failing s),
      c_message = (\<lambda>_. ''request failed''),
      c_now = ''2026-11-02T09:30:00.000Z'',
      c_new_school_id = ''t2'',
      c_db_now = ''2026-11-02T09:30:00Z'',
      getSession = None,
      auth_signUp = (\<lambda>em pw. Inl ''Signups not allowed''),
      signInWithPassword =
        (\<lambda>em pw. if em = ''admin@x.edu'' \<and> pw = ''Passw0rd!''
                  then Inr (Some demo_session, Some ''u1'')
                  else Inl ''Invalid login credentials'')\<rparr>"

definition bound_demo :: AuthState where
  "bound_demo =
     \<lparr>initialized = True, session = Some demo_session, user = Some demo_profile,
      school = Some demo_school, role = Some admin, tenantId = Some ''t1'', isLoading = False\<rparr>"

definition deactivated_backend :: backend where
  "deactivated_backend = demo_backend\<lparr>profiles := [demo_profile\<lparr>p_is_active := False\<rparr>]\<rparr>"



section \<open>The email pattern\<close>

text \<open>
  The test of the pattern, written with \<open>takeWhile\<close> and \<open>drop\<close>, accepts exactly the
  strings \<open>a@b.c\<close> whose three parts are non-empty and free of white space and \<open>@\<close>.
\<close>

lemma emailRegex_test_matches:
  assumes "a \<noteq> []" and "b \<noteq> []" and "c \<noteq> []"
    and "list_all not_space_at a" and "list_all not_space_at b" and "list_all not_space_at c"
  shows "emailRegex_test (a @ CHR ''@'' # b @ CHR ''.'' # c)"
proof -
  let ?s = "a @ CHR ''@'' # b @ CHR ''.'' # c"
  have "\<And>x. x \<in> set a \<Longrightarrow> x \<noteq> CHR ''@''"
    using assms(4) by (auto simp: list_all_iff not_space_at_def)
  then have t: "takeWhile (\<lambda>c. c \<noteq> CHR ''@'') ?s = a"
    by (simp add: takeWhile_append2)
  have d: "not_space_at CHR ''.''"
    by (simp add: not_space_at_def is_space_def)
  have r: "drop (length a + 1) ?s = b @ CHR ''.'' # c"
    by simp
  have "CHR ''.'' \<in> set (butlast (tl (b @ CHR ''.'' # c)))"
    using assms(2,3) by (cases b) (simp_all add: butlast_append)
  then show ?thesis
    unfolding emailRegex_test_def Let_def t r
    using assms d by simp
qed

lemma emailRegex_test_split:
  assumes "emailRegex_test s"
  shows "\<exists>a b c. s = a @ CHR ''@'' # b @ CHR ''.'' # c \<and> a \<noteq> [] \<and> b \<noteq> [] \<and> c \<noteq> []
    \<and> list_all not_space_at a \<and> list_all not_space_at b \<and> list_all not_space_at c"
proof -
  let ?P = "\<lambda>c. c \<noteq> CHR ''@''"
  let ?a = "takeWhile ?P s"
  let ?r = "drop (length ?a + 1) s"
  from assms have a: "?a \<noteq> []" "length ?a < length s" "list_all not_space_at ?a"
    and r: "list_all not_space_at ?r" and dot: "CHR ''.'' \<in> set (butlast (tl ?r))"
    by (simp_all add: emailRegex_test_def Let_def)
  have dw: "dropWhile ?P s \<noteq> []"
    using a(2) by (metis append_Nil2 less_irrefl takeWhile_dropWhile_id)
  then have "\<not> ?P (hd (dropWhile ?P s))"
    by (rule hd_dropWhile)
  then have "dropWhile ?P s = CHR ''@'' # tl (dropWhile ?P s)"
    using dw by (cases "dropWhile ?P s") simp_all
  then have s: "s = ?a @ CHR ''@'' # tl (dropWhile ?P s)"
    by (metis takeWhile_dropWhile_id)
  have rr: "?r = tl (dropWhile ?P s)"
    by (subst s) (simp del: takeWhile_dropWhile_id)
  from dot obtain m n where mn: "butlast (tl ?r) = m @ CHR ''.'' # n"
    by (meson split_list)
  then have tl_ne: "tl ?r \<noteq> []" by auto
  then have r_ne: "?r \<noteq> []" by auto
  have "tl ?r = butlast (tl ?r) @ [last (tl ?r)]"
    using tl_ne by simp
  then have "?r = (hd ?r # m) @ CHR ''.'' # (n @ [last (tl ?r)])"
    using r_ne mn by (metis append_Cons append_assoc list.collapse)
  then obtain b c where bc: "?r = b @ CHR ''.'' # c" "b \<noteq> []" "c \<noteq> []"
    by blast
  with r have "list_all not_space_at b" "list_all not_space_at c"
    by simp_all
  moreover have "s = ?a @ CHR ''@'' # b @ CHR ''.'' # c"
    using s rr bc(1) by simp
  ultimately show ?thesis
    using a bc(2,3) by blast
qed

lemma emailRegex_test_iff:
  "emailRegex_test s \<longleftrightarrow>
     (\<exists>a b c. s = a @ CHR ''@'' # b @ CHR ''.'' # c \<and> a \<noteq> [] \<and> b \<noteq> [] \<and> c \<noteq> []
        \<and> list_all not_space_at a \<and> list_all not_space_at b \<and> list_all not_space_at c)"
  using emailRegex_test_matches emailRegex_test_split by blast

section \<open>Properties of the provisioning handler\<close>

lemma create_tenant_provision:
  assumes "preconditions_hold e rq b"
    and "email rq = Some em" and "password rq = Some pw" and "schoolName rq = Some sn"
  shows "create_tenant e rq b = provision e em pw sn rq b"
  using assms
  by (auto simp: create_tenant_def preconditions_hold_def precondition_1_def precondition_2_def
      precondition_3_def truthy_def)

lemma requests_cleanup:
  "requests (cleanup e tid uid b) = requests b @ catch_requests tid uid"
  by (simp add: cleanup_def catch_requests_def send_def delete_user_def delete_school_def Let_def
      split: option.splits)

lemma schools_cleanup_gone:
  "\<forall>s\<in>set (schools b). s_id s \<noteq> t \<Longrightarrow> \<forall>s\<in>set (schools (cleanup e tid uid b)). s_id s \<noteq> t"
  by (auto simp: cleanup_def send_def delete_user_def delete_school_def Let_def
      split: option.splits)

lemma users_cleanup_gone:
  "\<forall>u\<in>set (auth_users b). au_id u \<noteq> i \<Longrightarrow> \<forall>u\<in>set (auth_users (cleanup e tid uid b)). au_id u \<noteq> i"
  by (auto simp: cleanup_def send_def delete_user_def delete_school_def Let_def
      split: option.splits)

lemma cleanup_other_tables:
  "profiles (cleanup e tid uid b) = profiles b"
  "academic_terms (cleanup e tid uid b) = academic_terms b"
  "teachers (cleanup e tid uid b) = teachers b"
  "parents (cleanup e tid uid b) = parents b"
  by (simp_all add: cleanup_def send_def delete_user_def delete_school_def Let_def
      split: option.splits)

lemma schools_cleanup:
  "schools (cleanup e tid uid b) =
     (case tid of
        Some t \<Rightarrow> if t \<noteq> [] \<and> \<not> fails e Catch_DeleteSchool
                  then filter (\<lambda>s. s_id s \<noteq> t) (schools b) else schools b
      | None \<Rightarrow> schools b)"
  by (simp add: cleanup_def send_def delete_user_def delete_school_def Let_def
      split: option.splits)

lemma auth_users_cleanup:
  "auth_users (cleanup e tid uid b) =
     (case uid of
        Some u \<Rightarrow> if u \<noteq> [] \<and> \<not> fails e Catch_DeleteUser
                  then filter (\<lambda>x. au_id x \<noteq> u) (auth_users b) else auth_users b
      | None \<Rightarrow> auth_users b)"
  by (simp add: cleanup_def send_def delete_user_def delete_school_def Let_def
      split: option.splits)

lemmas cleanup_fields = schools_cleanup auth_users_cleanup cleanup_other_tables requests_cleanup

lemma provision_step2_fails:
  assumes "\<not> fails e Step1_InsertSchool" and "fails e Step2_CreateUser"
    and "\<not> fails e Step2_DeleteSchool"
  shows "fst (provision e em pw sn rq b) = failure 500 ''Failed to create admin user''"
    and "schools (snd (provision e em pw sn rq b)) =
           filter (\<lambda>s. s_id s \<noteq> new_school_id e) (schools b)"
    and "auth_users (snd (provision e em pw sn rq b)) = auth_users b"
    and "profiles (snd (provision e em pw sn rq b)) = profiles b"
    and "academic_terms (snd (provision e em pw sn rq b)) = academic_terms b"
    and "requests (snd (provision e em pw sn rq b)) =
           requests b @ [InsertSchool (school_row e sn rq),
             CreateUser (admin_user e em pw (new_school_id e) rq),
             DeleteSchool (new_school_id e)]
           @ catch_requests (Some (new_school_id e)) None"
  using assms
  by (simp_all add: provision_def step1_def step2_def send_def delete_school_def Let_def
      school_row_def cleanup_fields)

lemma provision_step3_fails:
  assumes "\<not> fails e Step1_InsertSchool" and "\<not> fails e Step2_CreateUser"
    and "fails e Step3_InsertProfile"
    and "\<not> fails e Step3_DeleteUser" and "\<not> fails e Step3_DeleteSchool"
  shows "fst (provision e em pw sn rq b) = failure 500 ''Failed to create admin profile''"
    and "schools (snd (provision e em pw sn rq b)) =
           filter (\<lambda>s. s_id s \<noteq> new_school_id e) (schools b)"
    and "auth_users (snd (provision e em pw sn rq b)) =
           filter (\<lambda>u. au_id u \<noteq> new_user_id e) (auth_users b)"
    and "profiles (snd (provision e em pw sn rq b)) = profiles b"
    and "academic_terms (snd (provision e em pw sn rq b)) = academic_terms b"
    and "requests (snd (provision e em pw sn rq b)) =
           requests b @ [InsertSchool (school_row e sn rq),
             CreateUser (admin_user e em pw (new_school_id e) rq),
             InsertProfile (admin_profile e em (new_user_id e) (new_school_id e) rq),
             DeleteUser (new_user_id e), DeleteSchool (new_school_id e)]
           @ catch_requests (Some (new_school_id e)) (Some (new_user_id e))"
  using assms
  by (simp_all add: provision_def step1_def step2_def step3_def send_def delete_school_def
      delete_user_def Let_def school_row_def admin_user_def cleanup_fields)

lemma provision_step4_fails:
  assumes "\<not> fails e Step1_InsertSchool" and "\<not> fails e Step2_CreateUser"
    and "\<not> fails e Step3_InsertProfile" and "fails e Step4_InsertTerm"
  shows "fst (provision e em pw sn rq b) =
           \<lparr>status = 201, success = True, r_tenantId = Some (new_school_id e),
            r_userId = Some (new_user_id e), error = None\<rparr>"
    and "schools (snd (provision e em pw sn rq b)) = schools b @ [school_row e sn rq]"
    and "auth_users (snd (provision e em pw sn rq b)) =
           auth_users b @ [admin_user e em pw (new_school_id e) rq]"
    and "profiles (snd (provision e em pw sn rq b)) =
           profiles b @ [admin_profile e em (new_user_id e) (new_school_id e) rq]"
    and "academic_terms (snd (provision e em pw sn rq b)) = academic_terms b"
    and "requests (snd (provision e em pw sn rq b)) =
           requests b @ [InsertSchool (school_row e sn rq),
             CreateUser (admin_user e em pw (new_school_id e) rq),
             InsertProfile (admin_profile e em (new_user_id e) (new_school_id e) rq),
             InsertTerm (default_term (currentYear e) (new_school_id e))]"
  using assms
  by (simp_all add: provision_def step1_def step2_def step3_def step4_def send_def Let_def
      school_row_def admin_user_def)

text \<open>
  Claim C8. A request that passes the first two checks (the three required fields are
  present, the email matches the pattern) and whose password has fewer than 8
  characters is answered 400 with the message about the password length, and the
  backend is returned as it was: no request is sent and no row is created.
\<close>
theorem short_password_rejected:
  assumes "precondition_1 rq" and "precondition_2 rq"
    and "password rq = Some pw" and "length pw < 8"
  shows "create_tenant e rq b = (failure 400 ''Password must be at least 8 characters long'', b)"
  using assms
  by (auto simp: create_tenant_def precondition_1_def precondition_2_def truthy_def
      split: option.splits)

text \<open>The scenario of the specification: the password \<open>short\<close>.\<close>
theorem short_password_rejected_witness:
  "precondition_1 short_request \<and> precondition_2 short_request
   \<and> password short_request = Some ''short''
   \<and> status (fst (create_tenant (demo_env []) short_request empty_backend)) = 400
   \<and> snd (create_tenant (demo_env []) short_request empty_backend) = empty_backend"
proof -
  have h1: "precondition_1 short_request" by code_simp
  have h2: "precondition_2 short_request" by code_simp
  have h3: "password short_request = Some ''short''" by (simp add: short_request_def)
  have h4: "length ''short'' < 8" by simp
  show ?thesis
    using short_password_rejected [OF h1 h2 h3 h4, of "demo_env []" empty_backend] h1 h2 h3
    by (simp add: failure_def)
qed

text \<open>
  Claim C1. The request passes the five checks and the school row is inserted; then the
  creation of the identity (step 2) or the insertion of the profile (step 3) fails, and
  the compensating deletes the handler issues at that step take effect (the failure is
  injected at step 2 or 3 only; the deletes of the \<^verbatim>\<open>catch\<close> block may do anything).
  Then the answer is 500 and not a success; no school row with the id of the new tenant
  remains and no other school row is touched; when the identity was created no identity
  with its id remains; no profile and no term is added; and the requests sent are the
  steps taken followed by the compensation in reverse order (the identity, then the
  tenant), which the \<^verbatim>\<open>catch\<close> block repeats.
\<close>
theorem compensation_after_failed_step:
  assumes pre: "preconditions_hold e rq b"
    and rq: "email rq = Some em" "password rq = Some pw" "schoolName rq = Some sn"
    and s1: "\<not> fails e Step1_InsertSchool"
    and failing: "fails e Step2_CreateUser \<or> fails e Step3_InsertProfile"
    and comp: "compensation_takes_effect e"
  shows "status (fst (create_tenant e rq b)) = 500
    \<and> \<not> success (fst (create_tenant e rq b))
    \<and> (\<forall>s\<in>set (schools (snd (create_tenant e rq b))). s_id s \<noteq> new_school_id e)
    \<and> schools (snd (create_tenant e rq b)) = filter (\<lambda>s. s_id s \<noteq> new_school_id e) (schools b)
    \<and> (if fails e Step2_CreateUser
        then auth_users (snd (create_tenant e rq b)) = auth_users b
        else (\<forall>u\<in>set (auth_users (snd (create_tenant e rq b))). au_id u \<noteq> new_user_id e)
           \<and> auth_users (snd (create_tenant e rq b))
               = filter (\<lambda>u. au_id u \<noteq> new_user_id e) (auth_users b))
    \<and> profiles (snd (create_tenant e rq b)) = profiles b
    \<and> academic_terms (snd (create_tenant e rq b)) = academic_terms b
    \<and> requests (snd (create_tenant e rq b)) =
        requests b
        @ (if fails e Step2_CreateUser
           then [InsertSchool (school_row e sn rq),
                 CreateUser (admin_user e em pw (new_school_id e) rq),
                 DeleteSchool (new_school_id e)]
                @ catch_requests (Some (new_school_id e)) None
           else [InsertSchool (school_row e sn rq),
                 CreateUser (admin_user e em pw (new_school_id e) rq),
                 InsertProfile (admin_profile e em (new_user_id e) (new_school_id e) rq),
                 DeleteUser (new_user_id e), DeleteSchool (new_school_id e)]
                @ catch_requests (Some (new_school_id e)) (Some (new_user_id e)))"
proof -
  have eq: "create_tenant e rq b = provision e em pw sn rq b"
    using pre rq by (rule create_tenant_provision)
  show ?thesis
  proof (cases "fails e Step2_CreateUser")
    case True
    have d: "\<not> fails e Step2_DeleteSchool"
      using comp by (simp add: compensation_takes_effect_def)
    show ?thesis
      using True provision_step2_fails [OF s1 True d, of em pw sn rq b]
      by (simp add: eq failure_def)
  next
    case False
    then have s3: "fails e Step3_InsertProfile"
      using failing by simp
    have d: "\<not> fails e Step3_DeleteUser" "\<not> fails e Step3_DeleteSchool"
      using comp by (simp_all add: compensation_takes_effect_def)
    show ?thesis
      using False provision_step3_fails [OF s1 False s3 d, of em pw sn rq b]
      by (simp add: eq failure_def)
  qed
qed

text \<open>The profile insertion fails on a first provisioning: nothing remains.\<close>
theorem compensation_after_failed_step_witness:
  "preconditions_hold (demo_env [Step3_InsertProfile]) demo_request empty_backend
   \<and> fails (demo_env [Step3_InsertProfile]) Step3_InsertProfile
   \<and> compensation_takes_effect (demo_env [Step3_InsertProfile])
   \<and> status (fst (create_tenant (demo_env [Step3_InsertProfile]) demo_request empty_backend)) = 500
   \<and> schools (snd (create_tenant (demo_env [Step3_InsertProfile]) demo_request empty_backend)) = []
   \<and> auth_users (snd (create_tenant (demo_env [Step3_InsertProfile]) demo_request empty_backend)) = []
   \<and> drop 3 (requests (snd (create_tenant (demo_env [Step3_InsertProfile]) demo_request
        empty_backend)))
      = [DeleteUser ''u1'', DeleteSchool ''t1'', DeleteUser ''u1'', DeleteSchool ''t1'']"
proof -
  let ?e = "demo_env [Step3_InsertProfile]"
  have h1: "preconditions_hold ?e demo_request empty_backend" by code_simp
  have h2: "email demo_request = Some ''Admin@X.edu''" "password demo_request = Some ''Passw0rd!''"
    "schoolName demo_request = Some '' Lincoln ''"
    by (simp_all add: demo_request_def)
  have h3: "\<not> fails ?e Step1_InsertSchool" by code_simp
  have h4: "fails ?e Step3_InsertProfile" by code_simp
  have h5: "compensation_takes_effect ?e" by code_simp
  have h6: "\<not> fails ?e Step2_CreateUser" by code_simp
  have i: "new_school_id ?e = ''t1''" "new_user_id ?e = ''u1''"
    by (simp_all add: demo_env_def)
  have b: "schools empty_backend = []" "auth_users empty_backend = []"
    "requests empty_backend = []"
    by (simp_all add: empty_backend_def)
  show ?thesis
    using compensation_after_failed_step [OF h1 h2 h3 disjI2 [OF h4] h5] h1 h4 h5 h6
    by (simp add: i b catch_requests_def)
qed

text \<open>
  When moreover the ids given to the new rows are fresh, the four tables are exactly as
  they were before the request: the attempt leaves no trace but the requests sent.
\<close>

lemma compensation_leaves_no_trace:
  assumes pre: "preconditions_hold e rq b"
    and s1: "\<not> fails e Step1_InsertSchool"
    and failing: "fails e Step2_CreateUser \<or> fails e Step3_InsertProfile"
    and comp: "compensation_takes_effect e"
    and fresh: "\<forall>s\<in>set (schools b). s_id s \<noteq> new_school_id e"
      "\<forall>u\<in>set (auth_users b). au_id u \<noteq> new_user_id e"
  shows "schools (snd (create_tenant e rq b)) = schools b
    \<and> auth_users (snd (create_tenant e rq b)) = auth_users b
    \<and> profiles (snd (create_tenant e rq b)) = profiles b
    \<and> academic_terms (snd (create_tenant e rq b)) = academic_terms b"
proof -
  from pre obtain em pw sn where rq: "email rq = Some em" "password rq = Some pw"
    "schoolName rq = Some sn"
    by (auto simp: preconditions_hold_def precondition_1_def truthy_def split: option.splits)
  have eq: "create_tenant e rq b = provision e em pw sn rq b"
    using pre rq by (rule create_tenant_provision)
  have f1: "filter (\<lambda>s. s_id s \<noteq> new_school_id e) (schools b) = schools b"
    using fresh(1) by (auto simp: filter_id_conv)
  have f2: "filter (\<lambda>u. au_id u \<noteq> new_user_id e) (auth_users b) = auth_users b"
    using fresh(2) by (auto simp: filter_id_conv)
  have d: "\<not> fails e Step2_DeleteSchool" "\<not> fails e Step3_DeleteUser"
    "\<not> fails e Step3_DeleteSchool"
    using comp by (simp_all add: compensation_takes_effect_def)
  show ?thesis
  proof (cases "fails e Step2_CreateUser")
    case True
    show ?thesis
      using provision_step2_fails [OF s1 True d(1), of em pw sn rq b]
      by (simp add: eq f1)
  next
    case False
    then have s3: "fails e Step3_InsertProfile" using failing by simp
    show ?thesis
      using provision_step3_fails [OF s1 False s3 d(2,3), of em pw sn rq b]
      by (simp add: eq f1 f2)
  qed
qed

text \<open>
  Claim C4. The request passes the five checks and steps 1 to 3 succeed; the insertion
  of the default term (step 4) fails. Then the answer is 201 with the ids of the new
  tenant and of the new identity, the school row, the identity and the admin profile
  are in the backend, no delete is requested, and the term that was requested is the
  one named \<open>Fall {year}\<close> from \<open>{year}-09-01\<close> to \<open>{year+1}-06-30\<close>, marked current.
\<close>
theorem term_failure_tolerated:
  assumes pre: "preconditions_hold e rq b"
    and rq: "email rq = Some em" "password rq = Some pw" "schoolName rq = Some sn"
    and ok: "\<not> fails e Step1_InsertSchool" "\<not> fails e Step2_CreateUser"
      "\<not> fails e Step3_InsertProfile"
    and s4: "fails e Step4_InsertTerm"
  shows "fst (create_tenant e rq b) =
           \<lparr>status = 201, success = True, r_tenantId = Some (new_school_id e),
            r_userId = Some (new_user_id e), error = None\<rparr>
    \<and> schools (snd (create_tenant e rq b)) = schools b @ [school_row e sn rq]
    \<and> auth_users (snd (create_tenant e rq b)) =
        auth_users b @ [admin_user e em pw (new_school_id e) rq]
    \<and> profiles (snd (create_tenant e rq b)) =
        profiles b @ [admin_profile e em (new_user_id e) (new_school_id e) rq]
    \<and> academic_terms (snd (create_tenant e rq b)) = academic_terms b
    \<and> requests (snd (create_tenant e rq b)) =
        requests b @ [InsertSchool (school_row e sn rq),
          CreateUser (admin_user e em pw (new_school_id e) rq),
          InsertProfile (admin_profile e em (new_user_id e) (new_school_id e) rq),
          InsertTerm (default_term (currentYear e) (new_school_id e))]
    \<and> t_name (default_term (currentYear e) (new_school_id e)) = ''Fall '' @ show_nat (currentYear e)
    \<and> t_start_date (default_term (currentYear e) (new_school_id e))
        = show_nat (currentYear e) @ ''-09-01''
    \<and> t_end_date (default_term (currentYear e) (new_school_id e))
        = show_nat (currentYear e + 1) @ ''-06-30''
    \<and> t_is_current (default_term (currentYear e) (new_school_id e))"
proof -
  have eq: "create_tenant e rq b = provision e em pw sn rq b"
    using pre rq by (rule create_tenant_provision)
  show ?thesis
    using provision_step4_fails [OF ok s4, of em pw sn rq b]
    by (simp add: eq default_term_def)
qed

text \<open>In 2026 the term is \<open>Fall 2026\<close>, ending \<open>2027-06-30\<close>.\<close>
theorem term_failure_tolerated_witness:
  "preconditions_hold (demo_env [Step4_InsertTerm]) demo_request empty_backend
   \<and> fails (demo_env [Step4_InsertTerm]) Step4_InsertTerm
   \<and> status (fst (create_tenant (demo_env [Step4_InsertTerm]) demo_request empty_backend)) = 201
   \<and> r_tenantId (fst (create_tenant (demo_env [Step4_InsertTerm]) demo_request empty_backend))
       = Some ''t1''
   \<and> r_userId (fst (create_tenant (demo_env [Step4_InsertTerm]) demo_request empty_backend))
       = Some ''u1''
   \<and> map s_id (schools (snd (create_tenant (demo_env [Step4_InsertTerm]) demo_request
       empty_backend))) = [''t1'']
   \<and> map p_id (profiles (snd (create_tenant (demo_env [Step4_InsertTerm]) demo_request
       empty_backend))) = [''u1'']
   \<and> t_name (default_term (currentYear (demo_env [Step4_InsertTerm])) ''t1'') = ''Fall 2026''
   \<and> t_end_date (default_term (currentYear (demo_env [Step4_InsertTerm])) ''t1'') = ''2027-06-30''"
proof -
  let ?e = "demo_env [Step4_InsertTerm]"
  have h1: "preconditions_hold ?e demo_request empty_backend" by code_simp
  have h2: "email demo_request = Some ''Admin@X.edu''" "password demo_request = Some ''Passw0rd!''"
    "schoolName demo_request = Some '' Lincoln ''"
    by (simp_all add: demo_request_def)
  have h3: "\<not> fails ?e Step1_InsertSchool" "\<not> fails ?e Step2_CreateUser"
    "\<not> fails ?e Step3_InsertProfile"
    by code_simp+
  have h4: "fails ?e Step4_InsertTerm" by code_simp
  have i: "new_school_id ?e = ''t1''" "new_user_id ?e = ''u1''" "currentYear ?e = 2026"
    by (simp_all add: demo_env_def)
  have b: "schools empty_backend = []" "profiles empty_backend = []"
    by (simp_all add: empty_backend_def)
  have n: "show_nat 2026 = ''2026''" "show_nat 2027 = ''2027''" by code_simp+
  show ?thesis
    using term_failure_tolerated [OF h1 h2 h3 h4] h1 h4
    by (simp add: i b n school_row_def admin_profile_def)
qed

lemma lower_char_idem: "lower_char (lower_char c) = lower_char c"
proof -
  have "of_char c < (256::nat)" by simp
  then show ?thesis
    by (auto simp: lower_char_def Let_def)
qed

lemma toLowerCase_idem: "toLowerCase (toLowerCase s) = toLowerCase s"
  by (simp add: toLowerCase_def lower_char_idem)

text \<open>
  A request that passes the first three checks and whose lower-cased email is the
  stored email of an identity on the page the listing answers is answered 409 with the
  message that the email is already registered, and the backend is returned as it was.
\<close>

lemma email_taken_conflict:
  assumes "precondition_1 rq" and "precondition_2 rq" and "precondition_3 rq"
    and "email rq = Some em"
    and "\<not> fails e ListUsers"
    and "u \<in> set (listUsers e (auth_users b))" and "au_email u = toLowerCase em"
  shows "create_tenant e rq b = (failure 409 ''Email address is already registered'', b)"
proof -
  have "emailExists e em b"
    using assms(5-7) by (auto simp: emailExists_def list_ex_iff)
  then show ?thesis
    using assms(1-4)
    by (auto simp: create_tenant_def precondition_1_def precondition_2_def precondition_3_def
        truthy_def split: option.splits)
qed

text \<open>
  The handler stores every identity it creates with a lower-cased email, so backends
  built by the handler alone keep all emails in lower case; against such a backend the
  comparison of the handler is a case-insensitive one for the identities on the page the
  listing answers.
\<close>

lemma stored_lower_send_delete:
  "stored_lower b \<Longrightarrow> stored_lower (send f rq (delete_school t) b)"
  "stored_lower b \<Longrightarrow> stored_lower (send f rq (delete_user i) b)"
  by (auto simp: stored_lower_def send_def delete_school_def delete_user_def Let_def list_all_iff)

lemma stored_lower_cleanup:
  "stored_lower b \<Longrightarrow> stored_lower (cleanup e tid uid b)"
  by (auto simp: cleanup_def Let_def stored_lower_send_delete split: option.splits)

lemma stored_lower_step4:
  "stored_lower b \<Longrightarrow> stored_lower (snd (step4 e tid uid b))"
  by (simp add: step4_def Let_def send_def stored_lower_def)

lemma stored_lower_step3:
  assumes "stored_lower b"
  shows "stored_lower (snd (step3 e em tid uid rq b))"
proof -
  have "stored_lower (send f (InsertProfile row) (\<lambda>x. x\<lparr>profiles := profiles x @ [row]\<rparr>) b)"
    for f row
    using assms by (simp add: send_def stored_lower_def Let_def)
  then show ?thesis
    by (simp add: step3_def Let_def stored_lower_step4 stored_lower_send_delete)
qed

lemma stored_lower_step2:
  assumes "stored_lower b"
  shows "stored_lower (snd (step2 e em pw tid rq b))"
proof (cases "fails e Step2_CreateUser")
  case True
  have "stored_lower (send True rq' eff b)" for rq' eff
    using assms by (simp add: send_def stored_lower_def Let_def)
  then show ?thesis
    using True by (simp add: step2_def Let_def stored_lower_send_delete)
next
  case False
  let ?u = "admin_user e em pw tid rq"
  have "stored_lower (send False (CreateUser ?u) (\<lambda>x. x\<lparr>auth_users := auth_users x @ [?u]\<rparr>) b)"
    using assms by (simp add: send_def stored_lower_def Let_def admin_user_def toLowerCase_idem)
  then show ?thesis
    using False by (simp add: step2_def Let_def stored_lower_step3)
qed

lemma stored_lower_step1:
  assumes "stored_lower b"
  shows "stored_lower (snd (step1 e em pw sn rq b))"
proof -
  have "stored_lower (send f (InsertSchool row) (\<lambda>x. x\<lparr>schools := schools x @ [row]\<rparr>) b)"
    for f row
    using assms by (simp add: send_def stored_lower_def Let_def)
  then show ?thesis
    by (simp add: step1_def Let_def stored_lower_step2)
qed

lemma stored_lower_create_tenant:
  assumes "stored_lower b"
  shows "stored_lower (snd (create_tenant e rq b))"
proof -
  have "stored_lower (snd (provision e em pw sn rq b))" for em pw sn
    using stored_lower_step1 [OF assms, of e em pw sn rq]
    by (cases "step1 e em pw sn rq b"; cases "fst (step1 e em pw sn rq b)")
      (auto simp: provision_def stored_lower_cleanup)
  then show ?thesis
    using assms by (auto simp: create_tenant_def split: option.splits)
qed

lemma stored_lower_empty: "stored_lower empty_backend"
  by (simp add: stored_lower_def empty_backend_def)

lemma email_taken_case_insensitive:
  assumes "precondition_1 rq" and "precondition_2 rq" and "precondition_3 rq"
    and "email rq = Some em" and "\<not> fails e ListUsers"
    and "stored_lower b"
    and "u \<in> set (auth_users b)" and "u \<in> set (listUsers e (auth_users b))"
    and "toLowerCase (au_email u) = toLowerCase em"
  shows "create_tenant e rq b = (failure 409 ''Email address is already registered'', b)"
proof -
  have "au_email u = toLowerCase em"
    using assms(6,7,9) by (auto simp: stored_lower_def list_all_iff)
  then have "emailExists e em b"
    using assms(5,8) by (auto simp: emailExists_def list_ex_iff)
  then show ?thesis
    using assms(1-4)
    by (auto simp: create_tenant_def precondition_1_def precondition_2_def precondition_3_def
        truthy_def split: option.splits)
qed

text \<open>
  Claim C7 (every request whose email is, compared case-insensitively, the email of an
  existing identity is answered 409 and changes nothing) does not hold of the handler:
  the check sees one page of the listing only. With fifty-one identities stored in lower
  case and pages of fifty, a request for the email of the fifty-first passes the first
  three checks and is not answered 409. When the identity provider accepts the new user
  the answer is 201 and a second identity with that email is stored; when it refuses
  the user (step 2 fails) the answer is 500, after the school row was inserted and
  deleted again. For an identity on the page, here the fiftieth, the answer is 409.
\<close>
theorem email_beyond_first_page_not_detected:
  "length (auth_users crowded_backend) = 51 \<and> stored_lower crowded_backend
   \<and> precondition_1 crowded_request \<and> precondition_2 crowded_request
   \<and> precondition_3 crowded_request
   \<and> email crowded_request = Some ''User50@X.edu''
   \<and> au_email (auth_users crowded_backend ! 50) = ''user50@x.edu''
   \<and> toLowerCase (au_email (auth_users crowded_backend ! 50)) = toLowerCase ''User50@X.edu''
   \<and> status (fst (create_tenant (demo_env []) crowded_request crowded_backend)) = 201
   \<and> length (auth_users (snd (create_tenant (demo_env []) crowded_request crowded_backend))) = 52
   \<and> au_email (auth_users (snd (create_tenant (demo_env []) crowded_request crowded_backend))
        ! 51) = ''user50@x.edu''
   \<and> status (fst (create_tenant (demo_env [Step2_CreateUser]) crowded_request crowded_backend))
       = 500
   \<and> length (requests (snd (create_tenant (demo_env [Step2_CreateUser]) crowded_request
        crowded_backend))) = 4
   \<and> last (requests (snd (create_tenant (demo_env [Step2_CreateUser]) crowded_request
        crowded_backend))) = DeleteSchool ''t1''
   \<and> status (fst (create_tenant (demo_env [])
        (crowded_request\<lparr>email := Some ''User49@X.edu''\<rparr>) crowded_backend)) = 409"
  by code_simp

text \<open>The example backend is what a first provisioning of \<open>demo_request\<close> leaves.\<close>

lemma demo_backend_provisioned:
  "create_tenant (demo_env []) demo_request empty_backend
     = (\<lparr>status = 201, success = True, r_tenantId = Some ''t1'', r_userId = Some ''u1'',
         error = None\<rparr>, demo_backend)"
  by code_simp

section \<open>Properties of the session and tenant binding\<close>

lemma single_SomeD: "single xs = Some x \<Longrightarrow> xs = [x]"
  by (cases xs rule: list.exhaust; simp add: single_def split: list.splits)

lemma profileData_query_SomeD:
  assumes "profileData_query e userId b = Some p"
  shows "p_id p = userId" and "p_is_active p" and "p \<in> set (profiles b)"
proof -
  from assms have "filter (\<lambda>p. p_id p = userId \<and> p_is_active p) (profiles b) = [p]"
    by (auto simp: profileData_query_def split: if_splits dest: single_SomeD)
  then have "p \<in> set (filter (\<lambda>p. p_id p = userId \<and> p_is_active p) (profiles b))"
    by simp
  then show "p_id p = userId" and "p_is_active p" and "p \<in> set (profiles b)"
    by simp_all
qed

lemma schoolData_query_SomeD:
  assumes "schoolData_query e tid b = Some s"
  shows "s_id s = tid" and "s_subscription_status s = active" and "s \<in> set (schools b)"
proof -
  from assms have "filter (\<lambda>s. s_id s = tid \<and> s_subscription_status s = active) (schools b) = [s]"
    by (auto simp: schoolData_query_def split: if_splits dest: single_SomeD)
  then have "s \<in> set (filter (\<lambda>s. s_id s = tid \<and> s_subscription_status s = active) (schools b))"
    by simp
  then show "s_id s = tid" and "s_subscription_status s = active" and "s \<in> set (schools b)"
    by simp_all
qed

lemma fetchUserData_failed:
  assumes "profileData_query e userId b = None
           \<or> (\<exists>p. profileData_query e userId b = Some p
                 \<and> schoolData_query e (p_tenant_id p) b = None)"
  shows "fetchUserData e userId st b = (False, st\<lparr>isLoading := False\<rparr>, b)"
  using assms by (auto simp: fetchUserData_def)

lemma fetchUserData_bound:
  assumes "profileData_query e userId b = Some p"
    and "schoolData_query e (p_tenant_id p) b = Some sc"
  shows "fetchUserData e userId st b =
     (True,
      st\<lparr>user := Some p, school := Some sc, role := Some (p_role p),
         tenantId := Some (p_tenant_id p), isLoading := False\<rparr>,
      send (c_fails e UpdateLastLogin)
        (UpdateProfiles (no_updates\<lparr>u_last_login := Some (c_now e)\<rparr>) userId (p_tenant_id p))
        (update_profiles (no_updates\<lparr>u_last_login := Some (c_now e)\<rparr>) userId (p_tenant_id p)) b)"
  using assms by (simp add: fetchUserData_def Let_def)

lemma bound_consistent_other_fields [simp]:
  "bound_consistent (st\<lparr>isLoading := l\<rparr>) = bound_consistent st"
  "bound_consistent (st\<lparr>session := s\<rparr>) = bound_consistent st"
  "bound_consistent (st\<lparr>initialized := i\<rparr>) = bound_consistent st"
  by (simp_all add: bound_consistent_def split: option.splits)

lemma bound_consistent_cleared [simp]:
  "bound_consistent (st\<lparr>user := None, school := None, role := None, tenantId := None\<rparr>)"
  by (simp add: bound_consistent_def)

lemma fetchUserData_consistent:
  assumes "fetchUserData e userId st b = (ok, st', b')" and "bound_consistent st"
  shows "bound_consistent st'"
proof (cases "profileData_query e userId b")
  case None
  then have "fetchUserData e userId st b = (False, st\<lparr>isLoading := False\<rparr>, b)"
    by (simp add: fetchUserData_failed)
  with assms show ?thesis by auto
next
  case (Some p)
  show ?thesis
  proof (cases "schoolData_query e (p_tenant_id p) b")
    case None
    with Some have "fetchUserData e userId st b = (False, st\<lparr>isLoading := False\<rparr>, b)"
      by (simp add: fetchUserData_failed)
    with assms show ?thesis by auto
  next
    case (Some sc)
    note f = fetchUserData_bound [OF \<open>profileData_query e userId b = Some p\<close> Some, of st]
    from f assms(1) have "st' = st\<lparr>user := Some p, school := Some sc, role := Some (p_role p),
         tenantId := Some (p_tenant_id p), isLoading := False\<rparr>"
      by simp
    then show ?thesis
      using profileData_query_SomeD(2) [OF \<open>profileData_query e userId b = Some p\<close>]
        schoolData_query_SomeD(1,2) [OF Some]
      by (simp add: bound_consistent_def)
  qed
qed

lemma fetchUserData_consistent':
  "bound_consistent st \<Longrightarrow> bound_consistent (fst (snd (fetchUserData e userId st b)))"
  by (metis fetchUserData_consistent prod.collapse)

lemma refreshUserData_consistent:
  "bound_consistent st \<Longrightarrow> bound_consistent (fst (refreshUserData e st b))"
  by (auto simp: refreshUserData_def fetchUserData_consistent' split: option.splits)

lemma signIn_consistent:
  "bound_consistent st \<Longrightarrow> bound_consistent (fst (snd (signIn e em pw st b)))"
  by (auto simp: signIn_def split: sum.splits option.splits prod.splits
      dest!: fetchUserData_consistent)

lemma signOut_consistent:
  "bound_consistent st \<Longrightarrow> bound_consistent (fst (signOut e st b))"
  by (simp add: signOut_def Let_def)

lemma updateProfile_consistent:
  assumes "bound_consistent st"
  shows "bound_consistent (fst (snd (updateProfile e upd st b)))"
  using assms
  by (auto simp: updateProfile_def Let_def refreshUserData_consistent
      split: option.splits prod.splits)

lemma switchTenant_consistent:
  assumes "bound_consistent st"
  shows "bound_consistent (fst (snd (switchTenant e t st b)))"
  using assms
  by (auto simp: switchTenant_def Let_def split: option.splits prod.splits
      dest: fetchUserData_consistent)

lemma onAuthStateChange_consistent:
  assumes "bound_consistent st"
  shows "bound_consistent (fst (onAuthStateChange e s st b))"
proof (cases s)
  case None
  then show ?thesis
    by (simp add: onAuthStateChange_def bound_consistent_def)
next
  case (Some x)
  have "bound_consistent (st\<lparr>session := s\<rparr>)"
    using assms by simp
  then have "\<And>ok st' b'. fetchUserData e (ss_user_id x) (st\<lparr>session := s\<rparr>) b = (ok, st', b')
      \<Longrightarrow> bound_consistent st'"
    by (rule fetchUserData_consistent [rotated])
  then show ?thesis
    using Some
    by (cases "fetchUserData e (ss_user_id x) (st\<lparr>session := s\<rparr>) b")
      (auto simp: onAuthStateChange_def)
qed

lemma initialize_consistent:
  assumes "bound_consistent st"
  shows "bound_consistent (fst (initialize e st b))"
proof -
  have "bound_consistent (st\<lparr>initialized := True, session := getSession e\<rparr>)"
    using assms by simp
  then show ?thesis
    by (auto simp: initialize_def Let_def split: option.splits
        intro: fetchUserData_consistent')
qed

lemma signUp_rest_consistent:
  assumes "bound_consistent st"
  shows "bound_consistent (fst (snd (signUp_rest e em pw r sid st b)))"
proof -
  have "\<And>uid s b3 ok st' b'. fetchUserData e uid (st\<lparr>session := Some s\<rparr>) b3 = (ok, st', b')
      \<Longrightarrow> bound_consistent st'"
    using assms by (auto dest: fetchUserData_consistent)
  then show ?thesis
    using assms
    by (auto simp: signUp_rest_def Let_def split: sum.splits option.splits prod.splits)
qed

lemma signUp_consistent:
  assumes "bound_consistent st"
  shows "bound_consistent (fst (snd (signUp e em pw r sd st b)))"
proof -
  have "\<And>sid b1. bound_consistent (fst (snd (signUp_rest e em pw r sid (st\<lparr>isLoading := True\<rparr>) b1)))"
    using assms by (simp add: signUp_rest_consistent)
  then have "\<And>sid b1 res st' b'. signUp_rest e em pw r sid (st\<lparr>isLoading := True\<rparr>) b1 = (res, st', b')
      \<Longrightarrow> bound_consistent st'"
    by (metis fst_conv snd_conv)
  then show ?thesis
    using assms
    by (auto simp: signUp_def Let_def split: option.splits prod.splits UserRole.splits)
qed

lemma initial_state_consistent: "bound_consistent initial_state"
  by (simp add: bound_consistent_def initial_state_def)

text \<open>
  Claim C10. In every reachable state the four bound fields are consistent: when a
  profile is bound, the role is the role of that profile, the tenant id is its
  \<open>tenant_id\<close>, the bound school has that id and an active subscription, and the profile
  is active; when no profile is bound, the school, the role and the tenant id are
  cleared too.
\<close>
theorem reachable_bound_consistent:
  assumes "reachable st"
  shows "bound_consistent st"
  using assms
proof (induction rule: reachable.induct)
  case start
  show ?case by (rule initial_state_consistent)
next
  case (by_initialize st e b)
  then show ?case by (simp add: initialize_consistent)
next
  case (by_signUp st e em pw r sd b)
  then show ?case by (simp add: signUp_consistent)
next
  case (by_signIn st e em pw b)
  then show ?case by (simp add: signIn_consistent)
next
  case (by_signOut st e b)
  then show ?case by (simp add: signOut_consistent)
next
  case (by_refreshUserData st e b)
  then show ?case by (simp add: refreshUserData_consistent)
next
  case (by_updateProfile st e upd b)
  then show ?case by (simp add: updateProfile_consistent)
next
  case (by_switchTenant st e t b)
  then show ?case by (simp add: switchTenant_consistent)
next
  case (by_onAuthStateChange st e s b)
  then show ?case by (simp add: onAuthStateChange_consistent)
qed

text \<open>The state after signing in to the provisioned tenant is reachable and bound.\<close>
theorem reachable_bound_consistent_witness:
  "reachable bound_demo \<and> bound_consistent bound_demo
   \<and> user bound_demo = Some demo_profile \<and> school bound_demo = Some demo_school
   \<and> role bound_demo = Some (p_role demo_profile)
   \<and> tenantId bound_demo = Some (s_id demo_school)"
proof -
  let ?st0 = "fst (initialize (demo_client []) initial_state demo_backend)"
  let ?st1 = "fst (snd (signIn (demo_client []) ''Admin@X.edu'' ''Passw0rd!'' ?st0 demo_backend))"
  have "reachable ?st0" by (rule by_initialize [OF start])
  then have "reachable ?st1" by (rule by_signIn)
  moreover have "?st1 = bound_demo" by code_simp
  ultimately have r: "reachable bound_demo" by simp
  have v: "user bound_demo = Some demo_profile" "school bound_demo = Some demo_school"
    "role bound_demo = Some (p_role demo_profile)" "tenantId bound_demo = Some (s_id demo_school)"
    by (simp_all add: bound_demo_def demo_profile_def demo_school_def)
  show ?thesis
    using reachable_bound_consistent [OF r] r v by simp
qed

lemma profileData_query_None:
  assumes "\<forall>p\<in>set (profiles b). p_id p = userId \<longrightarrow> \<not> p_is_active p"
  shows "profileData_query e userId b = None"
proof -
  have "filter (\<lambda>p. p_id p = userId \<and> p_is_active p) (profiles b) = []"
    using assms by (auto simp: filter_empty_conv)
  then show ?thesis
    by (simp add: profileData_query_def single_def)
qed

lemma schoolData_query_None:
  assumes "\<forall>s\<in>set (schools b). s_id s = tid \<longrightarrow> s_subscription_status s \<noteq> active"
  shows "schoolData_query e tid b = None"
proof -
  have "filter (\<lambda>s. s_id s = tid \<and> s_subscription_status s = active) (schools b) = []"
    using assms by (auto simp: filter_empty_conv)
  then show ?thesis
    by (simp add: schoolData_query_def single_def)
qed

text \<open>
  Claim C2 as stated fails: a bind that fails does not reset the bound fields. From the
  bound state, once the profile is deactivated, \<open>fetchUserData\<close> answers \<open>False\<close> and
  the user, the school, the role and the tenant id bound before are all still there.
\<close>
theorem failed_bind_counterexample:
  "map p_is_active (profiles deactivated_backend) = [False]
   \<and> \<not> fst (fetchUserData (demo_client []) ''u1'' bound_demo deactivated_backend)
   \<and> map_option p_id (user (fst (snd (fetchUserData (demo_client []) ''u1'' bound_demo
        deactivated_backend)))) = Some ''u1''
   \<and> map_option s_id (school (fst (snd (fetchUserData (demo_client []) ''u1'' bound_demo
        deactivated_backend)))) = Some ''t1''
   \<and> role (fst (snd (fetchUserData (demo_client []) ''u1'' bound_demo deactivated_backend)))
       = Some admin
   \<and> tenantId (fst (snd (fetchUserData (demo_client []) ''u1'' bound_demo deactivated_backend)))
       = Some ''t1''"
  by code_simp

text \<open>
  Claim C2, amended. When the identity has no active profile row, or no school row with
  an active subscription for the tenant of its active profile, \<open>fetchUserData\<close> answers
  \<open>False\<close> and changes neither the backend nor any bound field (only the loading flag
  is cleared): fields that were cleared remain cleared, none is set. A sign-in whose bind
  fails so answers \<open>Failed to load user data\<close>, having set the session only.
\<close>
theorem failed_bind_changes_no_bound_field:
  assumes "(\<forall>p\<in>set (profiles b). p_id p = userId \<longrightarrow> \<not> p_is_active p)
     \<or> (\<forall>p\<in>set (profiles b). p_id p = userId \<and> p_is_active p \<longrightarrow>
          (\<forall>s\<in>set (schools b). s_id s = p_tenant_id p \<longrightarrow> s_subscription_status s \<noteq> active))"
  shows "fetchUserData e userId st b = (False, st\<lparr>isLoading := False\<rparr>, b)
    \<and> (signInWithPassword e (toLowerCase em) pw = Inr (Some s, Some userId) \<longrightarrow>
         signIn e em pw st b =
           (failed ''Failed to load user data'', st\<lparr>session := Some s, isLoading := False\<rparr>, b))"
proof -
  have q: "profileData_query e userId b = None
           \<or> (\<exists>p. profileData_query e userId b = Some p
                 \<and> schoolData_query e (p_tenant_id p) b = None)"
  proof (cases "profileData_query e userId b")
    case None
    then show ?thesis by simp
  next
    case (Some p)
    note p = profileData_query_SomeD [OF Some]
    from assms p have "\<forall>s\<in>set (schools b). s_id s = p_tenant_id p \<longrightarrow> s_subscription_status s \<noteq> active"
      by blast
    then have "schoolData_query e (p_tenant_id p) b = None"
      by (rule schoolData_query_None)
    with Some show ?thesis by simp
  qed
  have f: "\<And>st. fetchUserData e userId st b = (False, st\<lparr>isLoading := False\<rparr>, b)"
    using q by (rule fetchUserData_failed)
  show ?thesis
    by (simp add: f signIn_def)
qed

text \<open>Signing in from the initial state to a deactivated profile.\<close>
theorem failed_bind_changes_no_bound_field_witness:
  "map p_is_active (profiles deactivated_backend) = [False]
   \<and> fetchUserData (demo_client []) ''u1'' initial_state deactivated_backend
       = (False, initial_state\<lparr>isLoading := False\<rparr>, deactivated_backend)
   \<and> signIn (demo_client []) ''Admin@X.edu'' ''Passw0rd!'' initial_state deactivated_backend
       = (failed ''Failed to load user data'',
          initial_state\<lparr>session := Some demo_session, isLoading := False\<rparr>, deactivated_backend)
   \<and> user (initial_state\<lparr>session := Some demo_session, isLoading := False\<rparr>) = None
   \<and> tenantId (initial_state\<lparr>session := Some demo_session, isLoading := False\<rparr>) = None"
proof -
  have h: "\<forall>p\<in>set (profiles deactivated_backend). p_id p = ''u1'' \<longrightarrow> \<not> p_is_active p"
    by code_simp
  have l: "toLowerCase ''Admin@X.edu'' = ''admin@x.edu''" by code_simp
  have s: "signInWithPassword (demo_client []) (toLowerCase ''Admin@X.edu'') ''Passw0rd!''
      = Inr (Some demo_session, Some ''u1'')"
    by (simp add: l demo_client_def)
  have a: "map p_is_active (profiles deactivated_backend) = [False]"
    by code_simp
  show ?thesis
    using failed_bind_changes_no_bound_field [OF disjI1 [OF h], of "demo_client []" initial_state
        "''Admin@X.edu''" "''Passw0rd!''" demo_session] a s
    by (simp add: initial_state_def)
qed

text \<open>
  Claim C3. With a session, when no profile row has the id of the session's user and the
  requested tenant id, \<open>switchTenant\<close> answers \<open>Access denied to this tenant\<close>; the
  state of the provider and the backend (so the claims of the identity, and the list of
  requests sent) are returned as they were.
\<close>
theorem switchTenant_access_denied:
  assumes "session st = Some s"
    and "\<forall>p\<in>set (profiles b). p_id p = ss_user_id s \<longrightarrow> p_tenant_id p \<noteq> newTenantId"
  shows "switchTenant e newTenantId st b = (failed ''Access denied to this tenant'', st, b)"
proof -
  have "filter (\<lambda>p. p_id p = ss_user_id s \<and> p_tenant_id p = newTenantId) (profiles b) = []"
    using assms(2) by (auto simp: filter_empty_conv)
  then show ?thesis
    using assms(1) by (simp add: switchTenant_def single_def)
qed

text \<open>The bound user has no profile in tenant \<open>t9\<close>.\<close>
theorem switchTenant_access_denied_witness:
  "session bound_demo = Some demo_session
   \<and> map p_tenant_id (profiles demo_backend) = [''t1'']
   \<and> switchTenant (demo_client []) ''t9'' bound_demo demo_backend
       = (failed ''Access denied to this tenant'', bound_demo, demo_backend)"
proof -
  have h1: "session bound_demo = Some demo_session" by code_simp
  have h2: "\<forall>p\<in>set (profiles demo_backend). p_id p = ss_user_id demo_session \<longrightarrow> p_tenant_id p \<noteq> ''t9''"
    by code_simp
  have a: "map p_tenant_id (profiles demo_backend) = [''t1'']"
    by code_simp
  show ?thesis
    using switchTenant_access_denied [OF h1 h2] h1 a by simp
qed

text \<open>
  Claim C5 as stated fails: when the revocation of the session returns an error,
  \<open>signOut\<close> logs it and returns before the state is cleared; the session, the user, the
  school, the role and the tenant id are all still bound.
\<close>
theorem signOut_counterexample:
  "c_fails (demo_client [SignOut_Call]) SignOut_Call
   \<and> session (fst (signOut (demo_client [SignOut_Call]) bound_demo demo_backend))
       = Some demo_session
   \<and> map_option p_id (user (fst (signOut (demo_client [SignOut_Call]) bound_demo demo_backend)))
       = Some ''u1''
   \<and> map_option s_id (school (fst (signOut (demo_client [SignOut_Call]) bound_demo demo_backend)))
       = Some ''t1''
   \<and> role (fst (signOut (demo_client [SignOut_Call]) bound_demo demo_backend)) = Some admin
   \<and> tenantId (fst (signOut (demo_client [SignOut_Call]) bound_demo demo_backend)) = Some ''t1''"
  by code_simp

text \<open>
  Claim C5, amended. \<open>signOut\<close> always returns (the model has no other outcome, the
  source catches every error) after asking the identity provider to sign out. When the
  revocation succeeds the five bound fields are cleared; when it returns an error the
  state is left as it was. From a state whose five fields are cleared the state is
  unchanged either way.
\<close>
theorem signOut_clears_or_keeps:
  "fst (signOut e st b) =
     (if c_fails e SignOut_Call then st
      else st\<lparr>session := None, user := None, school := None, role := None, tenantId := None\<rparr>)
   \<and> (session st = None \<and> user st = None \<and> school st = None \<and> role st = None
        \<and> tenantId st = None \<longrightarrow> fst (signOut e st b) = st)
   \<and> requests (snd (signOut e st b)) = requests b @ [AuthSignOut]"
proof -
  have sent: "requests (snd (signOut e st b)) = requests b @ [AuthSignOut]"
    by (simp add: signOut_def send_def Let_def)
  have after: "fst (signOut e st b) =
     (if c_fails e SignOut_Call then st
      else st\<lparr>session := None, user := None, school := None, role := None, tenantId := None\<rparr>)"
    by (simp add: signOut_def Let_def)
  have "fst (signOut e st b) = st"
    if "session st = None \<and> user st = None \<and> school st = None \<and> role st = None
        \<and> tenantId st = None"
    using that by (cases st) (simp add: signOut_def Let_def)
  with sent after show ?thesis
    by blast
qed

text \<open>Signing out of the bound state, and signing out when already signed out.\<close>
theorem signOut_clears_or_keeps_witness:
  "\<not> c_fails (demo_client []) SignOut_Call
   \<and> fst (signOut (demo_client []) bound_demo demo_backend)
       = bound_demo\<lparr>session := None, user := None, school := None, role := None, tenantId := None\<rparr>
   \<and> session (initial_state\<lparr>isLoading := False\<rparr>) = None
   \<and> fst (signOut (demo_client []) (initial_state\<lparr>isLoading := False\<rparr>) demo_backend)
       = initial_state\<lparr>isLoading := False\<rparr>
   \<and> fst (signOut (demo_client [SignOut_Call]) (initial_state\<lparr>isLoading := False\<rparr>) demo_backend)
       = initial_state\<lparr>isLoading := False\<rparr>"
proof -
  have h: "\<not> c_fails (demo_client []) SignOut_Call" by code_simp
  have u: "session (initial_state\<lparr>isLoading := False\<rparr>) = None
      \<and> user (initial_state\<lparr>isLoading := False\<rparr>) = None
      \<and> school (initial_state\<lparr>isLoading := False\<rparr>) = None
      \<and> role (initial_state\<lparr>isLoading := False\<rparr>) = None
      \<and> tenantId (initial_state\<lparr>isLoading := False\<rparr>) = None"
    by (simp add: initial_state_def)
  show ?thesis
    using signOut_clears_or_keeps [of "demo_client []" bound_demo demo_backend]
      signOut_clears_or_keeps [of "demo_client []" "initial_state\<lparr>isLoading := False\<rparr>" demo_backend]
      signOut_clears_or_keeps [of "demo_client [SignOut_Call]" "initial_state\<lparr>isLoading := False\<rparr>"
        demo_backend] h u
    by simp
qed

lemma queries_after_update_user:
  "profileData_query e uid (send f rq (update_user i t r) b) = profileData_query e uid b"
  "schoolData_query e tid (send f rq (update_user i t r) b) = schoolData_query e tid b"
  by (simp_all add: profileData_query_def schoolData_query_def send_def update_user_def Let_def)

lemma queries_other_fault:
  "profileData_query (e\<lparr>c_fails := (c_fails e)(UpdateLastLogin := x)\<rparr>) uid b
     = profileData_query e uid b"
  "schoolData_query (e\<lparr>c_fails := (c_fails e)(UpdateLastLogin := x)\<rparr>) tid b
     = schoolData_query e tid b"
  by (simp_all add: profileData_query_def schoolData_query_def)

text \<open>
  Claim C9. When the two reads of a bind succeed and the write of \<open>last_login\<close> fails,
  \<open>fetchUserData\<close> still answers \<open>True\<close>, the bound fields are those of the two reads,
  the same as when the write succeeds, and the backend only records the request. The
  callers report no error: \<open>signIn\<close> and \<open>switchTenant\<close> succeed and \<open>refreshUserData\<close>
  binds.
\<close>
theorem lastLogin_failure_ignored:
  assumes p: "profileData_query e userId b = Some p"
    and sc: "schoolData_query e (p_tenant_id p) b = Some sc"
    and w: "c_fails e UpdateLastLogin"
  shows "fetchUserData e userId st b =
      (True,
       st\<lparr>user := Some p, school := Some sc, role := Some (p_role p),
          tenantId := Some (p_tenant_id p), isLoading := False\<rparr>,
       b\<lparr>requests := requests b @
            [UpdateProfiles (no_updates\<lparr>u_last_login := Some (c_now e)\<rparr>) userId (p_tenant_id p)]\<rparr>)
    \<and> fst (snd (fetchUserData e userId st b))
        = fst (snd (fetchUserData (e\<lparr>c_fails := (c_fails e)(UpdateLastLogin := False)\<rparr>) userId st b))
    \<and> (signInWithPassword e (toLowerCase em) pw = Inr (Some s, Some userId) \<longrightarrow>
         fst (signIn e em pw st b) = succeeded)
    \<and> (session st = Some s \<and> ss_user_id s = userId \<and> userId \<noteq> [] \<longrightarrow>
         fst (refreshUserData e st b)
           = st\<lparr>user := Some p, school := Some sc, role := Some (p_role p),
                tenantId := Some (p_tenant_id p), isLoading := False\<rparr>)
    \<and> (session st = Some s \<and> ss_user_id s = userId \<and> \<not> c_fails e SwitchTenant_Verify
         \<and> filter (\<lambda>q. p_id q = userId \<and> p_tenant_id q = newTenantId) (profiles b) = [pd]
         \<and> \<not> c_fails e SwitchTenant_UpdateUser \<longrightarrow>
         fst (switchTenant e newTenantId st b) = succeeded)"
proof -
  have f: "\<And>st. fetchUserData e userId st b =
      (True,
       st\<lparr>user := Some p, school := Some sc, role := Some (p_role p),
          tenantId := Some (p_tenant_id p), isLoading := False\<rparr>,
       b\<lparr>requests := requests b @
            [UpdateProfiles (no_updates\<lparr>u_last_login := Some (c_now e)\<rparr>) userId (p_tenant_id p)]\<rparr>)"
    using w by (simp add: fetchUserData_bound [OF p sc] send_def)
  have g: "fst (snd (fetchUserData (e\<lparr>c_fails := (c_fails e)(UpdateLastLogin := False)\<rparr>) userId st b))
      = st\<lparr>user := Some p, school := Some sc, role := Some (p_role p),
           tenantId := Some (p_tenant_id p), isLoading := False\<rparr>"
    using p sc by (simp add: fetchUserData_def queries_other_fault Let_def)
  have h: "\<And>st rq i t r. fst (fetchUserData e userId st (send False rq (update_user i t r) b))"
    using p sc by (simp add: fetchUserData_def queries_after_update_user Let_def)
  have sw: "session st = Some s \<and> ss_user_id s = userId \<and> \<not> c_fails e SwitchTenant_Verify
         \<and> filter (\<lambda>q. p_id q = userId \<and> p_tenant_id q = newTenantId) (profiles b) = [pd]
         \<and> \<not> c_fails e SwitchTenant_UpdateUser \<longrightarrow>
         fst (switchTenant e newTenantId st b) = succeeded"
    using h [of st "UpdateUser userId newTenantId (p_role pd)" userId newTenantId "p_role pd"]
    by (auto simp: switchTenant_def single_def Let_def split: prod.splits)
  show ?thesis
    using sw by (simp add: f g signIn_def refreshUserData_def)
qed

text \<open>Binding the demo user while the write of \<open>last_login\<close> fails.\<close>
theorem lastLogin_failure_ignored_witness:
  "profileData_query (demo_client [UpdateLastLogin]) ''u1'' demo_backend = Some demo_profile
   \<and> schoolData_query (demo_client [UpdateLastLogin]) ''t1'' demo_backend = Some demo_school
   \<and> c_fails (demo_client [UpdateLastLogin]) UpdateLastLogin
   \<and> fst (fetchUserData (demo_client [UpdateLastLogin]) ''u1'' bound_demo demo_backend)
   \<and> fst (snd (fetchUserData (demo_client [UpdateLastLogin]) ''u1'' bound_demo demo_backend))
       = bound_demo
   \<and> profiles (snd (snd (fetchUserData (demo_client [UpdateLastLogin]) ''u1'' bound_demo
       demo_backend))) = [demo_profile]
   \<and> fst (signIn (demo_client [UpdateLastLogin]) ''Admin@X.edu'' ''Passw0rd!'' bound_demo
       demo_backend) = succeeded"
proof -
  let ?e = "demo_client [UpdateLastLogin]"
  have h1: "profileData_query ?e ''u1'' demo_backend = Some demo_profile" by code_simp
  have t: "p_tenant_id demo_profile = ''t1''" "p_role demo_profile = admin"
    by (simp_all add: demo_profile_def)
  have h2: "schoolData_query ?e (p_tenant_id demo_profile) demo_backend = Some demo_school"
    unfolding t by code_simp
  have h3: "c_fails ?e UpdateLastLogin" by code_simp
  have l: "toLowerCase ''Admin@X.edu'' = ''admin@x.edu''" by code_simp
  have s: "signInWithPassword ?e (toLowerCase ''Admin@X.edu'') ''Passw0rd!''
      = Inr (Some demo_session, Some ''u1'')"
    by (simp add: l demo_client_def)
  have b: "bound_demo\<lparr>user := Some demo_profile, school := Some demo_school, role := Some admin,
      tenantId := Some ''t1'', isLoading := False\<rparr> = bound_demo"
    by (simp add: bound_demo_def)
  have pr: "profiles demo_backend = [demo_profile]" by (simp add: demo_backend_def)
  show ?thesis
    using lastLogin_failure_ignored [OF h1 h2 h3, of bound_demo "''Admin@X.edu''" "''Passw0rd!''"
        demo_session] h1 h2 h3 s
    by (simp add: t b pr)
qed




















end
